theory Spec2Isabelle
  imports Main "HOL-Library.Sublist"
begin

section \<open>The deployment orchestrator of deploy/deploy.go\<close>

text \<open>
  The Go package \<^verbatim>\<open>deploy\<close> drives one provisioning run. Everything it talks to (the
  DigitalOcean client, the SSH client, the config renderers, the HTTP endpoint that
  reports the public IP, the TCP stack, the file system, the clock, the random number
  generator) lives outside the package. The embedding keeps the code of the package and
  takes the collaborators as an environment \<open>env\<close>: for each of them a function that
  gives the outcome of a call. A collaborator that is called several times in one run is
  indexed by the number of calls made to it before, so an environment fixes, for every
  collaborator, an arbitrary sequence of outcomes.

  What the program does to the outside is kept in a state \<open>sys\<close>: the files on disk, the
  call counters, and a trace of the effects in program order.

  Go returns pairs \<open>(value, err)\<close>; the model keeps the pair, with \<open>err\<close> an
  \<open>error option\<close> (\<open>None\<close> is \<^verbatim>\<open>nil\<close>). The calls to \<^verbatim>\<open>log.Println\<close> and
  \<^verbatim>\<open>log.Printf\<close> and the deferred \<^verbatim>\<open>resp.Body.Close()\<close> are not tracked;
  \<^verbatim>\<open>log.Fatal\<close>, which ends the process, is an outcome of its own.
\<close>

subsection \<open>Values\<close>

datatype error = Error string

type_synonym conn = nat

datatype service = CoreosService | DosxvpnService | PiholeService

datatype sshclient_Client = SshClient (AuthorizedKey: string)

datatype doclient_Client = DoClient (client_token: string)

record http_Response =
  Body :: "string \<times> error option"

text \<open>The effects of the package, as they appear in the trace.\<close>

datatype event =
    TimeNow
  | SshclientNew
  | HttpGet string
  | CreateDroplet string string string string string
  | WaitForDropletIP int
  | CreateFirewall string int
  | SetStatus string
  | Dial string string
  | ConnClose conn
  | Sleep nat
  | SshRun string string string
  | GetFileFromContainer string string string string
  | MkdirAll string
  | WriteFile string string
  | GenerateAppleConfig
  | GenerateAndroidConfig
  | OSXAddVPN string

record env =
  GOOS :: string
  os_Getenv :: "string \<Rightarrow> string"
  path_join :: "string \<Rightarrow> string \<Rightarrow> string"
  clock_UnixNano :: "nat \<Rightarrow> int"
  rand_Int_first :: "int \<Rightarrow> int"
  ssh_new :: "nat \<Rightarrow> sshclient_Client \<times> error option"
  cloud_config :: "string \<Rightarrow> service list \<Rightarrow> string \<times> error option"
  http_backend :: "nat \<Rightarrow> string \<Rightarrow> http_Response \<times> error option"
  create_droplet :: "doclient_Client \<Rightarrow> string \<Rightarrow> string \<Rightarrow> string \<Rightarrow> string \<Rightarrow> string
                       \<Rightarrow> int \<times> error option"
  wait_droplet_ip :: "doclient_Client \<Rightarrow> int \<Rightarrow> string \<times> error option"
  create_firewall :: "doclient_Client \<Rightarrow> string \<Rightarrow> int \<Rightarrow> error option"
  tcp_connect :: "nat \<Rightarrow> string \<Rightarrow> string \<Rightarrow> conn \<times> error option"
  ssh_run :: "sshclient_Client \<Rightarrow> string \<Rightarrow> string \<Rightarrow> string \<Rightarrow> string \<times> error option"
  container_file :: "nat \<Rightarrow> sshclient_Client \<Rightarrow> string \<Rightarrow> string \<Rightarrow> string \<Rightarrow> string
                       \<Rightarrow> string \<times> error option"
  mkdir_all :: "nat \<Rightarrow> string \<Rightarrow> error option"
  write_file :: "nat \<Rightarrow> string \<Rightarrow> string \<Rightarrow> error option"
  write_progress :: "nat \<Rightarrow> string \<Rightarrow> string \<Rightarrow> nat option"
  apple_config :: "string \<Rightarrow> string \<Rightarrow> string \<Rightarrow> string \<Rightarrow> string \<Rightarrow> string
                       \<Rightarrow> string \<times> error option"
  android_config :: "string \<Rightarrow> string \<Rightarrow> string \<Rightarrow> string \<Rightarrow> string \<times> error option"
  osx_add_vpn :: "string \<Rightarrow> error option"

record sys =
  files :: "string \<rightharpoonup> string"
  trace :: "event list"
  now_calls :: nat
  sshnew_calls :: nat
  http_calls :: nat
  dial_calls :: nat
  fetch_calls :: nat
  mkdir_calls :: nat
  write_calls :: nat

definition emit :: "event \<Rightarrow> sys \<Rightarrow> sys" where
  "emit e s = s\<lparr>trace := trace s @ [e]\<rparr>"

subsection \<open>Library functions the package uses\<close>

text \<open>\<^verbatim>\<open>strconv.Itoa\<close> and the verb \<^verbatim>\<open>%d\<close>: the decimal digits of an integer.\<close>

definition digit_char :: "nat \<Rightarrow> char" where
  "digit_char n = char_of (48 + n)"

function Itoa_digits :: "int \<Rightarrow> string" where
  "Itoa_digits i =
     (if i < 10 then [digit_char (nat i)]
      else Itoa_digits (i div 10) @ [digit_char (nat (i mod 10))])"
  by pat_completeness auto
termination
  by (relation "measure nat") auto

declare Itoa_digits.simps [simp del]

definition Itoa :: "int \<Rightarrow> string" where
  "Itoa i = (if i < 0 then CHR ''-'' # Itoa_digits (- i) else Itoa_digits i)"

text \<open>
  \<^verbatim>\<open>bytes.TrimSpace\<close> removes the leading and the trailing white space of a byte slice,
  white space being the code points with Unicode's White Space property, read as UTF-8.
  \<open>space_runes\<close> lists their encodings.
\<close>

definition space_runes :: "string list" where
  "space_runes =
     [[CHR 0x09], [CHR 0x0A], [CHR 0x0B], [CHR 0x0C], [CHR 0x0D], [CHR 0x20],
      [CHR 0xC2, CHR 0x85], [CHR 0xC2, CHR 0xA0],
      [CHR 0xE1, CHR 0x9A, CHR 0x80],
      [CHR 0xE2, CHR 0x80, CHR 0x80], [CHR 0xE2, CHR 0x80, CHR 0x81],
      [CHR 0xE2, CHR 0x80, CHR 0x82], [CHR 0xE2, CHR 0x80, CHR 0x83],
      [CHR 0xE2, CHR 0x80, CHR 0x84], [CHR 0xE2, CHR 0x80, CHR 0x85],
      [CHR 0xE2, CHR 0x80, CHR 0x86], [CHR 0xE2, CHR 0x80, CHR 0x87],
      [CHR 0xE2, CHR 0x80, CHR 0x88], [CHR 0xE2, CHR 0x80, CHR 0x89],
      [CHR 0xE2, CHR 0x80, CHR 0x8A],
      [CHR 0xE2, CHR 0x80, CHR 0xA8], [CHR 0xE2, CHR 0x80, CHR 0xA9],
      [CHR 0xE2, CHR 0x80, CHR 0xAF],
      [CHR 0xE2, CHR 0x81, CHR 0x9F],
      [CHR 0xE3, CHR 0x80, CHR 0x80]]"

definition leading_space :: "string \<Rightarrow> nat" where
  "leading_space s = (case find (\<lambda>w. prefix w s) space_runes of None \<Rightarrow> 0 | Some w \<Rightarrow> length w)"

function TrimLeftSpace :: "string \<Rightarrow> string" where
  "TrimLeftSpace s = (if 0 < leading_space s then TrimLeftSpace (drop (leading_space s) s) else s)"
  by pat_completeness auto
termination
proof (relation "measure length")
  show "wf (measure length)" by simp
next
  fix s :: string
  assume pos: "0 < leading_space s"
  then have "s \<noteq> []" by (auto simp: leading_space_def space_runes_def)
  with pos show "(drop (leading_space s) s, s) \<in> measure length" by simp
qed

declare TrimLeftSpace.simps [simp del]

definition trailing_space :: "string \<Rightarrow> nat" where
  "trailing_space s = (case find (\<lambda>w. suffix w s) space_runes of None \<Rightarrow> 0 | Some w \<Rightarrow> length w)"

function TrimRightSpace :: "string \<Rightarrow> string" where
  "TrimRightSpace s =
     (if 0 < trailing_space s then TrimRightSpace (take (length s - trailing_space s) s) else s)"
  by pat_completeness auto
termination
proof (relation "measure length")
  show "wf (measure length)" by simp
next
  fix s :: string
  assume pos: "0 < trailing_space s"
  then have "s \<noteq> []" by (auto simp: trailing_space_def space_runes_def)
  with pos show "(take (length s - trailing_space s) s, s) \<in> measure length" by simp
qed

declare TrimRightSpace.simps [simp del]

definition TrimSpace :: "string \<Rightarrow> string" where
  "TrimSpace s = TrimRightSpace (TrimLeftSpace s)"

text \<open>
  \<^verbatim>\<open>rand.Seed\<close> of \<^verbatim>\<open>math/rand\<close> keeps 31 bits of the seed: the generator's state is
  filled from \<^verbatim>\<open>seed % (1<<31 - 1)\<close> (Go's remainder, which has the sign of the seed),
  made positive, with 89482311 in place of zero. The tables that turn this value into the
  numbers of the generator are not part of the repository: the first \<^verbatim>\<open>rand.Int()\<close>
  after seeding is the environment's \<open>rand_Int_first\<close> of the value kept.
\<close>

definition rand_Seed :: "int \<Rightarrow> int" where
  "rand_Seed seed =
     (let r = (if seed < 0 then - ((- seed) mod 2147483647) else seed mod 2147483647);
          r = (if r < 0 then r + 2147483647 else r)
      in if r = 0 then 89482311 else r)"

text \<open>
  \<^verbatim>\<open>filepath.Join\<close> of two elements on a system whose separator is the slash: the
  elements from the first non-empty one on are joined by a slash and the result is
  cleaned (\<^verbatim>\<open>filepath.Clean\<close>: empty and \<open>.\<close> elements go, a \<open>..\<close> element removes the
  element before it, or itself at the root, and the empty path becomes \<open>.\<close>).
\<close>

fun split_path :: "string \<Rightarrow> string list" where
  "split_path [] = [[]]"
| "split_path (c # cs) =
     (if c = CHR ''/'' then [] # split_path cs
      else (case split_path cs of [] \<Rightarrow> [[c]] | x # xs \<Rightarrow> (c # x) # xs))"

fun clean_elems :: "bool \<Rightarrow> string list \<Rightarrow> string list \<Rightarrow> string list" where
  "clean_elems rooted st [] = rev st"
| "clean_elems rooted st (e # es) =
     (if e = [] \<or> e = ''.'' then clean_elems rooted st es
      else if e = ''..'' then
        (case st of
           [] \<Rightarrow> if rooted then clean_elems rooted [] es else clean_elems rooted [e] es
         | t # ts \<Rightarrow> if t = ''..'' then clean_elems rooted (e # st) es
                     else clean_elems rooted ts es)
      else clean_elems rooted (e # st) es)"

fun join_slash :: "string list \<Rightarrow> string" where
  "join_slash [] = []"
| "join_slash [x] = x"
| "join_slash (x # y # ys) = x @ ''/'' @ join_slash (y # ys)"

definition filepath_Clean :: "string \<Rightarrow> string" where
  "filepath_Clean p =
     (case p of
        [] \<Rightarrow> ''.''
      | c # cs \<Rightarrow>
          (let rooted = (c = CHR ''/'');
               out = join_slash (clean_elems rooted [] (split_path p))
           in if rooted then CHR ''/'' # out else if out = [] then ''.'' else out))"

definition unix_Join :: "string \<Rightarrow> string \<Rightarrow> string" where
  "unix_Join a b =
     (if a \<noteq> [] then filepath_Clean (a @ ''/'' @ b)
      else if b \<noteq> [] then filepath_Clean b
      else [])"

text \<open>
  \<^verbatim>\<open>fmt.Sprintf\<close> with a template that holds one \<^verbatim>\<open>%s\<close> and a string argument:
  the argument replaces the verb.
\<close>

fun Sprintf_s :: "string \<Rightarrow> string \<Rightarrow> string" where
  "Sprintf_s [] a = []"
| "Sprintf_s [c] a = [c]"
| "Sprintf_s (c # c' # rest) a =
     (if c = CHR ''%'' \<and> c' = CHR ''s'' then a @ rest else c # Sprintf_s (c' # rest) a)"

subsection \<open>Constants and package variables\<close>

definition DropletBaseName :: string where "DropletBaseName = ''dosxvpn''"
definition DropletImage :: string where "DropletImage = ''coreos-beta''"
definition DropletSize :: string where "DropletSize = ''512mb''"

definition userHomeDir :: "env \<Rightarrow> string" where
  "userHomeDir env =
     (if GOOS env = ''windows'' then
        (let home = os_Getenv env ''HOMEDRIVE'' @ os_Getenv env ''HOMEPATH'';
             home = (if home = [] then os_Getenv env ''USERPROFILE'' else home)
         in home)
      else os_Getenv env ''HOME'')"

text \<open>
  \<^verbatim>\<open>filepath.Join\<close> depends on the operating system; it is the environment's
  \<open>path_join\<close> (\<open>unix_Join\<close> where the separator is the slash).
\<close>

definition FilepathDosxvpnConfigDir :: "env \<Rightarrow> string" where
  "FilepathDosxvpnConfigDir env = path_join env (userHomeDir env) ''.dosxvpn''"

definition FilenameAppleConfig :: string where "FilenameAppleConfig = ''%s.apple.mobileconfig''"
definition FilenameAndroidConfig :: string where "FilenameAndroidConfig = ''%s.android.sswan''"
definition FilenamePrivateKey :: string where "FilenamePrivateKey = ''%s.client.cert.p12''"
definition FilenameCACert :: string where "FilenameCACert = ''%s.ca.cert.pem''"
definition FilenameServerCert :: string where "FilenameServerCert = ''%s.server.cert.pem''"

text \<open>The local path of a file of the deployment \<open>name\<close>:
  \<^verbatim>\<open>filepath.Join(FilepathDosxvpnConfigDir, fmt.Sprintf(template, name))\<close>.\<close>

definition config_path :: "env \<Rightarrow> string \<Rightarrow> string \<Rightarrow> string" where
  "config_path env template name = path_join env (FilepathDosxvpnConfigDir env) (Sprintf_s template name)"

subsection \<open>The Deployment\<close>

text \<open>
  The struct of the source. \<open>doClient\<close> and \<open>sshClient\<close> are pointers there; \<^verbatim>\<open>New\<close>
  returns no Deployment whose \<open>sshClient\<close> is nil, so the field holds the client.
\<close>

record Deployment =
  Region :: string
  AutoConfigure :: bool
  Name :: string
  Token :: string
  services :: "service list"
  userData :: string
  dropletIP :: string
  dropletID :: int
  doClient :: doclient_Client
  sshClient :: sshclient_Client
  VpnPassword :: string
  Status :: string
  VPNIPAddress :: string
  InitialPublicIP :: string
  FinalPublicIP :: string

subsection \<open>Calls to the collaborators\<close>

definition time_Sleep :: "nat \<Rightarrow> sys \<Rightarrow> sys" where
  "time_Sleep secs s = emit (Sleep secs) s"

definition time_Now_UnixNano :: "env \<Rightarrow> sys \<Rightarrow> int \<times> sys" where
  "time_Now_UnixNano env s =
     (clock_UnixNano env (now_calls s), (emit TimeNow s)\<lparr>now_calls := Suc (now_calls s)\<rparr>)"

definition sshclient_New :: "env \<Rightarrow> sys \<Rightarrow> (sshclient_Client \<times> error option) \<times> sys" where
  "sshclient_New env s =
     (ssh_new env (sshnew_calls s), (emit SshclientNew s)\<lparr>sshnew_calls := Suc (sshnew_calls s)\<rparr>)"

definition http_Get :: "env \<Rightarrow> string \<Rightarrow> sys \<Rightarrow> (http_Response \<times> error option) \<times> sys" where
  "http_Get env url s =
     (http_backend env (http_calls s) url, (emit (HttpGet url) s)\<lparr>http_calls := Suc (http_calls s)\<rparr>)"

definition net_Dial :: "env \<Rightarrow> string \<Rightarrow> string \<Rightarrow> sys \<Rightarrow> (conn \<times> error option) \<times> sys" where
  "net_Dial env network address s =
     (tcp_connect env (dial_calls s) network address,
      (emit (Dial network address) s)\<lparr>dial_calls := Suc (dial_calls s)\<rparr>)"

definition conn_Close :: "conn \<Rightarrow> sys \<Rightarrow> sys" where
  "conn_Close c s = emit (ConnClose c) s"

definition doClient_CreateDroplet ::
  "env \<Rightarrow> doclient_Client \<Rightarrow> string \<Rightarrow> string \<Rightarrow> string \<Rightarrow> string \<Rightarrow> string \<Rightarrow> sys
     \<Rightarrow> (int \<times> error option) \<times> sys" where
  "doClient_CreateDroplet env c name region size' ud img s =
     (create_droplet env c name region size' ud img, emit (CreateDroplet name region size' ud img) s)"

definition doClient_WaitForDropletIP ::
  "env \<Rightarrow> doclient_Client \<Rightarrow> int \<Rightarrow> sys \<Rightarrow> (string \<times> error option) \<times> sys" where
  "doClient_WaitForDropletIP env c did s = (wait_droplet_ip env c did, emit (WaitForDropletIP did) s)"

definition doClient_CreateFirewall ::
  "env \<Rightarrow> doclient_Client \<Rightarrow> string \<Rightarrow> int \<Rightarrow> sys \<Rightarrow> error option \<times> sys" where
  "doClient_CreateFirewall env c name did s = (create_firewall env c name did, emit (CreateFirewall name did) s)"

definition sshClient_Run ::
  "env \<Rightarrow> sshclient_Client \<Rightarrow> string \<Rightarrow> string \<Rightarrow> string \<Rightarrow> sys \<Rightarrow> (string \<times> error option) \<times> sys" where
  "sshClient_Run env c user host cmd s = (ssh_run env c user host cmd, emit (SshRun user host cmd) s)"

definition sshClient_GetFileFromContainer ::
  "env \<Rightarrow> sshclient_Client \<Rightarrow> string \<Rightarrow> string \<Rightarrow> string \<Rightarrow> string \<Rightarrow> sys
     \<Rightarrow> (string \<times> error option) \<times> sys" where
  "sshClient_GetFileFromContainer env c user host container file s =
     (container_file env (fetch_calls s) c user host container file,
      (emit (GetFileFromContainer user host container file) s)\<lparr>fetch_calls := Suc (fetch_calls s)\<rparr>)"

definition os_MkdirAll :: "env \<Rightarrow> string \<Rightarrow> sys \<Rightarrow> error option \<times> sys" where
  "os_MkdirAll env dir s =
     (mkdir_all env (mkdir_calls s) dir, (emit (MkdirAll dir) s)\<lparr>mkdir_calls := Suc (mkdir_calls s)\<rparr>)"

text \<open>
  \<^verbatim>\<open>ioutil.WriteFile\<close> opens the file (creating or truncating it), writes the data and
  closes the file. The environment says whether the call succeeds (\<open>write_file\<close>) and,
  when it fails, how far it got (\<open>write_progress\<close>): \<open>None\<close> when the open failed, which
  leaves the disk as it was, \<open>Some n\<close> when the file was opened and \<open>n\<close> bytes of the
  data reached it. \<open>disk_write err progress fs filename data\<close> is the disk after the call.
\<close>

definition disk_write ::
  "error option \<Rightarrow> nat option \<Rightarrow> (string \<rightharpoonup> string) \<Rightarrow> string \<Rightarrow> string
     \<Rightarrow> (string \<rightharpoonup> string)" where
  "disk_write err progress fs filename data =
     (case err of
        None \<Rightarrow> fs(filename \<mapsto> data)
      | Some e \<Rightarrow> (case progress of None \<Rightarrow> fs | Some n \<Rightarrow> fs(filename \<mapsto> take n data)))"

definition ioutil_WriteFile :: "env \<Rightarrow> string \<Rightarrow> string \<Rightarrow> sys \<Rightarrow> error option \<times> sys" where
  "ioutil_WriteFile env filename data s =
     (let err = write_file env (write_calls s) filename data;
          progress = write_progress env (write_calls s) filename data
      in (err, (emit (WriteFile filename data) s)
                 \<lparr>write_calls := Suc (write_calls s),
                  files := disk_write err progress (files s) filename data\<rparr>))"

definition genconfig_GenerateAppleConfig ::
  "env \<Rightarrow> string \<Rightarrow> string \<Rightarrow> string \<Rightarrow> string \<Rightarrow> string \<Rightarrow> string \<Rightarrow> sys
     \<Rightarrow> (string \<times> error option) \<times> sys" where
  "genconfig_GenerateAppleConfig env ip name password privateKey caCert serverCert s =
     (apple_config env ip name password privateKey caCert serverCert, emit GenerateAppleConfig s)"

definition genconfig_GenerateAndroidConfig ::
  "env \<Rightarrow> string \<Rightarrow> string \<Rightarrow> string \<Rightarrow> string \<Rightarrow> sys \<Rightarrow> (string \<times> error option) \<times> sys" where
  "genconfig_GenerateAndroidConfig env ip name privateKey caCert s =
     (android_config env ip name privateKey caCert, emit GenerateAndroidConfig s)"

definition vpn_OSXAddVPN :: "env \<Rightarrow> string \<Rightarrow> sys \<Rightarrow> error option \<times> sys" where
  "vpn_OSXAddVPN env path s = (osx_add_vpn env path, emit (OSXAddVPN path) s)"

subsection \<open>The functions of the package\<close>

text \<open>
  \<^verbatim>\<open>randomString\<close> seeds the global generator with the clock and keeps the first \<open>n\<close>
  characters of the decimal form of \<^verbatim>\<open>rand.Int()\<close>. \<open>rand_Int_after_Seed env seed\<close> is
  the value of \<^verbatim>\<open>rand.Int()\<close> right after \<^verbatim>\<open>rand.Seed(seed)\<close>. The slice \<^verbatim>\<open>[:n]\<close>
  panics on a shorter string: the result \<open>None\<close>.
\<close>

definition rand_Int_after_Seed :: "env \<Rightarrow> int \<Rightarrow> int" where
  "rand_Int_after_Seed env seed = rand_Int_first env (rand_Seed seed)"

definition randomString :: "env \<Rightarrow> nat \<Rightarrow> sys \<Rightarrow> string option \<times> sys" where
  "randomString env n s =
     (let (seed, s1) = time_Now_UnixNano env s;
          digits = Itoa (rand_Int_after_Seed env seed)
      in (if n \<le> length digits then Some (take n digits) else None, s1))"

text \<open>
  \<^verbatim>\<open>New\<close>: \<open>None\<close> is the panic of \<^verbatim>\<open>randomString\<close>, \<open>Some (Inl e)\<close> the return
  \<^verbatim>\<open>(nil, e)\<close>, \<open>Some (Inr d)\<close> the return \<^verbatim>\<open>(d, nil)\<close>. The fields the struct literal
  does not name have Go's zero values.
\<close>

definition New :: "env \<Rightarrow> string \<Rightarrow> string \<Rightarrow> bool \<Rightarrow> sys \<Rightarrow> (error + Deployment) option \<times> sys" where
  "New env token region autoConfigure s =
     (case randomString env 3 s of
        (None, s1) \<Rightarrow> (None, s1)
      | (Some r, s1) \<Rightarrow>
          (let ((client, err), s2) = sshclient_New env s1
           in case err of
                Some e \<Rightarrow> (Some (Inl e), s2)
              | None \<Rightarrow>
                  (let deploy = \<lparr> Region = region, AutoConfigure = autoConfigure,
                         Name = DropletBaseName @ ''-'' @ r @ ''-'' @ region,
                         Token = token,
                         services = [CoreosService, DosxvpnService, PiholeService],
                         userData = [], dropletIP = [], dropletID = 0,
                         doClient = DoClient token, sshClient = client,
                         VpnPassword = [], Status = ''pending auth'', VPNIPAddress = [],
                         InitialPublicIP = [], FinalPublicIP = [] \<rparr>;
                       (ud, err) = cloud_config env (AuthorizedKey (sshClient deploy)) (services deploy)
                   in case err of
                        Some e \<Rightarrow> (Some (Inl e), s2)
                      | None \<Rightarrow> (Some (Inr (deploy\<lparr>userData := ud\<rparr>)), s2))))"

definition saveConfig :: "env \<Rightarrow> string \<Rightarrow> string \<Rightarrow> sys \<Rightarrow> (string \<times> error option) \<times> sys" where
  "saveConfig env configFileString saveFile s =
     (let (_, s1) = os_MkdirAll env (FilepathDosxvpnConfigDir env) s;
          (err, s2) = ioutil_WriteFile env saveFile configFileString s1
      in case err of
           Some e \<Rightarrow> (([], Some e), s2)
         | None \<Rightarrow> ((saveFile, None), s2))"

definition getPublicIp :: "env \<Rightarrow> sys \<Rightarrow> (string \<times> error option) \<times> sys" where
  "getPublicIp env s =
     (let ((resp, err), s1) = http_Get env ''http://checkip.amazonaws.com/'' s
      in case err of
           Some e \<Rightarrow> (([], Some e), s1)
         | None \<Rightarrow>
             (let (buf, err) = Body resp
              in case err of
                   Some e \<Rightarrow> (([], Some e), s1)
                 | None \<Rightarrow> ((TrimSpace buf, None), s1)))"

text \<open>
  \<^verbatim>\<open>waitForPort\<close>. The loop counter \<open>attempt\<close> is a \<^verbatim>\<open>uint\<close> that stays below 16.
  The function has three \<^verbatim>\<open>return\<close> statements; the model returns, with the error,
  the one that was taken.
\<close>

datatype return_site = ReturnConnErr | ReturnConnected | ReturnTimedOut

definition timed_out_error :: "int \<Rightarrow> error" where
  "timed_out_error port = Error (''timed out waiting for port '' @ Itoa port @ '' to open'')"

function waitForPort_from ::
  "env \<Rightarrow> string \<Rightarrow> int \<Rightarrow> nat \<Rightarrow> sys \<Rightarrow> (return_site \<times> error option) \<times> sys" where
  "waitForPort_from env host port attempt s =
     (if attempt < 15 then
        (let ((conn, err), s1) = net_Dial env ''tcp'' (host @ '':'' @ Itoa port) s
         in if err \<noteq> None then
              waitForPort_from env host port (attempt + 1) (time_Sleep 5 s1)
            else if err \<noteq> None then ((ReturnConnErr, err), s1)
            else ((ReturnConnected, None), conn_Close conn s1))
      else ((ReturnTimedOut, Some (timed_out_error port)), s))"
  by pat_completeness auto
termination
  by (relation "measure (\<lambda>(env, host, port, attempt, s). 15 - attempt)") auto

declare waitForPort_from.simps [simp del]

definition waitForPort :: "env \<Rightarrow> string \<Rightarrow> int \<Rightarrow> sys \<Rightarrow> error option \<times> sys" where
  "waitForPort env host port s =
     (let ((site, err), s') = waitForPort_from env host port 0 s in (err, s'))"

definition waitForSSH :: "env \<Rightarrow> string \<Rightarrow> sys \<Rightarrow> error option \<times> sys" where
  "waitForSSH env ip s = waitForPort env ip 22 s"

text \<open>
  The loop of \<^verbatim>\<open>Run\<close> that waits for the public IP to change (lines 184 to 192),
  from iteration \<open>j\<close> on.
\<close>

function Run_ip_loop :: "env \<Rightarrow> string \<Rightarrow> nat \<Rightarrow> Deployment \<Rightarrow> sys \<Rightarrow> Deployment \<times> sys" where
  "Run_ip_loop env initialPublicIP j d s =
     (if j < 10 then
        (let s1 = time_Sleep 5 s;
             ((newIP, err), s2) = getPublicIp env s1
         in if err = None \<and> newIP \<noteq> [] \<and> newIP \<noteq> initialPublicIP then
              (let ((newIP', _), s3) = getPublicIp env s2
               in (d\<lparr>FinalPublicIP := newIP'\<rparr>, s3))
            else Run_ip_loop env initialPublicIP (j + 1) d s2)
      else (d, s))"
  by pat_completeness auto
termination
  by (relation "measure (\<lambda>(env, initialPublicIP, j, d, s). 10 - j)") auto

declare Run_ip_loop.simps [simp del]

definition set_Status :: "string \<Rightarrow> Deployment \<times> sys \<Rightarrow> Deployment \<times> sys" where
  "set_Status v ds = ((fst ds)\<lparr>Status := v\<rparr>, emit (SetStatus v) (snd ds))"

text \<open>
  The tail of \<^verbatim>\<open>Run\<close> under \<^verbatim>\<open>if d.AutoConfigure\<close> (lines 174 to 194). An error of
  \<^verbatim>\<open>vpn.OSXAddVPN\<close> is logged and dropped.
\<close>

definition Run_autoconfigure :: "env \<Rightarrow> string \<Rightarrow> Deployment \<Rightarrow> sys \<Rightarrow> Deployment \<times> sys" where
  "Run_autoconfigure env initialPublicIP d s =
     (if AutoConfigure d then
        (let (d, s) = set_Status ''adding vpn to osx'' (d, s);
             (_, s) = vpn_OSXAddVPN env (config_path env FilenameAppleConfig (Name d)) s;
             (d, s) = set_Status ''waiting for ip address change'' (d, s);
             (d, s) = Run_ip_loop env initialPublicIP 0 d s
         in set_Status ''done'' (d, s))
      else (d, s))"

text \<open>
  \<^verbatim>\<open>Run\<close>. \<open>Exited e\<close> is \<^verbatim>\<open>log.Fatal(e)\<close>, which ends the process;
  \<open>Returned err\<close> is a \<^verbatim>\<open>return err\<close>. The Deployment and the state at that point
  are returned with it. The body is read in three parts: \<open>Run_provision\<close> is the part
  whose errors are fatal (lines 91 to 133) and hands the local variable
  \<open>initialPublicIP\<close> on, \<open>Run_artifacts\<close> fetches, renders and saves the files
  (lines 135 to 172), \<open>Run_autoconfigure\<close> is the block under
  \<^verbatim>\<open>if d.AutoConfigure\<close>; after it \<^verbatim>\<open>Run\<close> returns \<^verbatim>\<open>nil\<close>. Every call of
  \<^verbatim>\<open>saveConfig\<close> in \<^verbatim>\<open>Run\<close> drops both results. The method
  \<^verbatim>\<open>getAndSaveConfigFiles\<close> is called nowhere and is left out.
\<close>

datatype outcome = Exited error | Returned "error option"

definition wait_cmd :: string where
  "wait_cmd = ''until docker logs dosxvpn &>/dev/null; do sleep 2; done; sleep 5;''"

definition Run_provision ::
  "env \<Rightarrow> Deployment \<Rightarrow> sys \<Rightarrow> error option \<times> string \<times> Deployment \<times> sys" where
  "Run_provision env d s =
     (let ((initialPublicIP, _), s) = getPublicIp env s;
          d = d\<lparr>InitialPublicIP := initialPublicIP\<rparr>;
          ((dropletID', err), s) =
            doClient_CreateDroplet env (doClient d) (Name d) (Region d) DropletSize (userData d)
              DropletImage s
      in case err of Some e \<Rightarrow> (Some e, initialPublicIP, d, s) | None \<Rightarrow>
     (let d = d\<lparr>dropletID := dropletID'\<rparr>;
          ((dropletIP', err), s) = doClient_WaitForDropletIP env (doClient d) (dropletID d) s
      in case err of Some e \<Rightarrow> (Some e, initialPublicIP, d, s) | None \<Rightarrow>
     (let d = d\<lparr>dropletIP := dropletIP'\<rparr>;
          d = d\<lparr>VPNIPAddress := dropletIP d\<rparr>;
          (err, s) = doClient_CreateFirewall env (doClient d) (Name d) (dropletID d) s
      in case err of Some e \<Rightarrow> (Some e, initialPublicIP, d, s) | None \<Rightarrow>
     (let (d, s) = set_Status ''waiting for ssh'' (d, s);
          (err, s) = waitForSSH env (dropletIP d) s
      in case err of Some e \<Rightarrow> (Some e, initialPublicIP, d, s) | None \<Rightarrow>
     (let ((_, err), s) = sshClient_Run env (sshClient d) ''core'' (dropletIP d) wait_cmd s
      in case err of Some e \<Rightarrow> (Some e, initialPublicIP, d, s) | None \<Rightarrow>
         (None, initialPublicIP, d, s))))))"

definition Run_artifacts :: "env \<Rightarrow> Deployment \<Rightarrow> sys \<Rightarrow> error option \<times> Deployment \<times> sys" where
  "Run_artifacts env d s =
     (let ((privateKeyPasswordString, err), s) =
            sshClient_GetFileFromContainer env (sshClient d) ''core'' (dropletIP d) ''dosxvpn''
              ''/etc/ipsec.d/client.cert.p12.password'' s
      in case err of Some e \<Rightarrow> (Some e, d, s) | None \<Rightarrow>
     (let d = d\<lparr>VpnPassword := privateKeyPasswordString\<rparr>;
          ((privateKeyString, err), s) =
            sshClient_GetFileFromContainer env (sshClient d) ''core'' (dropletIP d) ''dosxvpn''
              ''/etc/ipsec.d/client.cert.p12'' s
      in case err of Some e \<Rightarrow> (Some e, d, s) | None \<Rightarrow>
     (let (_, s) = saveConfig env privateKeyString (config_path env FilenamePrivateKey (Name d)) s;
          ((caCertString, err), s) =
            sshClient_GetFileFromContainer env (sshClient d) ''core'' (dropletIP d) ''dosxvpn''
              ''/etc/ipsec.d/cacerts/ca.cert.pem'' s
      in case err of Some e \<Rightarrow> (Some e, d, s) | None \<Rightarrow>
     (let (_, s) = saveConfig env caCertString (config_path env FilenameCACert (Name d)) s;
          ((serverCertString, err), s) =
            sshClient_GetFileFromContainer env (sshClient d) ''core'' (dropletIP d) ''dosxvpn''
              ''/etc/ipsec.d/certs/server.cert.pem'' s
      in case err of Some e \<Rightarrow> (Some e, d, s) | None \<Rightarrow>
     (let (_, s) = saveConfig env serverCertString (config_path env FilenameServerCert (Name d)) s;
          ((appleConfigString, err), s) =
            genconfig_GenerateAppleConfig env (dropletIP d) (Name d) privateKeyPasswordString
              privateKeyString caCertString serverCertString s
      in case err of Some e \<Rightarrow> (Some e, d, s) | None \<Rightarrow>
     (let (_, s) = saveConfig env appleConfigString (config_path env FilenameAppleConfig (Name d)) s;
          ((androidConfigString, err), s) =
            genconfig_GenerateAndroidConfig env (dropletIP d) (Name d) privateKeyString caCertString s
      in case err of Some e \<Rightarrow> (Some e, d, s) | None \<Rightarrow>
     (let (_, s) = saveConfig env androidConfigString (config_path env FilenameAndroidConfig (Name d)) s
      in (None, d, s))))))))"

definition Run :: "env \<Rightarrow> Deployment \<Rightarrow> sys \<Rightarrow> outcome \<times> Deployment \<times> sys" where
  "Run env d s =
     (case Run_provision env d s of
        (Some e, initialPublicIP, d, s) \<Rightarrow> (Exited e, d, s)
      | (None, initialPublicIP, d, s) \<Rightarrow>
          (case Run_artifacts env d s of
             (Some e, d, s) \<Rightarrow> (Returned (Some e), d, s)
           | (None, d, s) \<Rightarrow>
               (let (d, s) = Run_autoconfigure env initialPublicIP d s
                in (Returned None, d, s))))"

text \<open>
  Whether a result of \<^verbatim>\<open>getPublicIp\<close> passes the test of line 187:
  \<^verbatim>\<open>err == nil && newIP != "" && newIP != initialPublicIP\<close>.
\<close>

definition ip_changed :: "string \<Rightarrow> string \<times> error option \<Rightarrow> bool" where
  "ip_changed initialPublicIP r = (snd r = None \<and> fst r \<noteq> [] \<and> fst r \<noteq> initialPublicIP)"

subsection \<open>Reading the trace\<close>

text \<open>The events of \<open>n\<close> connect attempts that fail: a dial and a sleep of five seconds each.\<close>

definition failed_attempts :: "string \<Rightarrow> int \<Rightarrow> nat \<Rightarrow> event list" where
  "failed_attempts host port n = concat (replicate n [Dial ''tcp'' (host @ '':'' @ Itoa port), Sleep 5])"

fun is_SetStatus :: "event \<Rightarrow> bool" where
  "is_SetStatus (SetStatus v) = True"
| "is_SetStatus _ = False"

fun status_of :: "event \<Rightarrow> string" where
  "status_of (SetStatus v) = v"
| "status_of _ = []"

text \<open>The values written to \<open>Status\<close>, in the order of the writes.\<close>

definition status_writes :: "event list \<Rightarrow> string list" where
  "status_writes tr = map status_of (filter is_SetStatus tr)"

definition status_order :: "string list" where
  "status_order = [''pending auth'', ''waiting for ssh'', ''adding vpn to osx'',
                   ''waiting for ip address change'', ''done'']"

fun is_OSXAddVPN :: "event \<Rightarrow> bool" where
  "is_OSXAddVPN (OSXAddVPN p) = True"
| "is_OSXAddVPN _ = False"

fun is_HttpGet :: "event \<Rightarrow> bool" where
  "is_HttpGet (HttpGet u) = True"
| "is_HttpGet _ = False"

fun is_CreateDroplet :: "event \<Rightarrow> bool" where
  "is_CreateDroplet (CreateDroplet n r sz ud img) = True"
| "is_CreateDroplet _ = False"

fun is_fetch :: "event \<Rightarrow> bool" where
  "is_fetch (GetFileFromContainer u h c f) = True"
| "is_fetch _ = False"

text \<open>
  The characters \<^verbatim>\<open>strconv.Itoa\<close> can produce, and the strings of three of them: the
  random part of a name is one of these.
\<close>

definition decimal_chars :: "char set" where
  "decimal_chars = set ''-0123456789''"

definition tokens :: "string set" where
  "tokens = {t. set t \<subseteq> decimal_chars \<and> length t = 3}"

text \<open>The state of a process that has done nothing yet, on an empty disk.\<close>

definition fresh_sys :: sys where
  "fresh_sys = \<lparr> files = Map.empty, trace = [], now_calls = 0, sshnew_calls = 0, http_calls = 0,
                 dial_calls = 0, fetch_calls = 0, mkdir_calls = 0, write_calls = 0 \<rparr>"

text \<open>
  What \<^verbatim>\<open>getPublicIp\<close> returns when it makes the \<open>k\<close>-th HTTP request of the process, and
  the events of \<open>n\<close> rounds of the loop that waits for the IP to change and sees no change.
\<close>

definition probe_result :: "env \<Rightarrow> nat \<Rightarrow> string \<times> error option" where
  "probe_result env k = fst (getPublicIp env (fresh_sys\<lparr>http_calls := k\<rparr>))"

definition probe_rounds :: "nat \<Rightarrow> event list" where
  "probe_rounds n = concat (replicate n [Sleep 5, HttpGet ''http://checkip.amazonaws.com/''])"

subsection \<open>Sample environments\<close>

text \<open>
  An environment in which every collaborator succeeds: the port opens at the third
  attempt and the public IP stays what it was. The clock advances by one second from one
  reading to the next. \<open>rand_Int_first\<close> is a stand-in, a linear congruential step, not
  the table of \<^verbatim>\<open>math/rand\<close>: it only supplies numbers of three digits or more, and no
  statement about the code rests on the digits it gives.
\<close>

definition sample_env :: env where
  "sample_env =
     \<lparr> GOOS = ''darwin'',
       os_Getenv = (\<lambda>v. if v = ''HOME'' then ''/Users/me'' else []),
       path_join = unix_Join,
       clock_UnixNano = (\<lambda>k. 1500000000000000000 + 1000000000 * int k),
       rand_Int_first = (\<lambda>x. (x * 6364136223846793005 + 1442695040888963407)
                                mod 9223372036854775808),
       ssh_new = (\<lambda>k. (SshClient ''ssh-rsa AAAA'', None)),
       cloud_config = (\<lambda>key svcs. (''#cloud-config'', None)),
       http_backend = (\<lambda>k url. (\<lparr>Body = (''1.2.3.4'' @ [CHR 0x0A], None)\<rparr>, None)),
       create_droplet = (\<lambda>c n r sz ud img. (4242, None)),
       wait_droplet_ip = (\<lambda>c i. (''203.0.113.7'', None)),
       create_firewall = (\<lambda>c n i. None),
       tcp_connect = (\<lambda>k n a. if k < 2 then (0, Some (Error ''connection refused'')) else (7, None)),
       ssh_run = (\<lambda>c u h cmd. ([], None)),
       container_file = (\<lambda>k c u h ct f. (''contents of '' @ f, None)),
       mkdir_all = (\<lambda>k dir. None),
       write_file = (\<lambda>k f dat. None),
       write_progress = (\<lambda>k f dat. None),
       apple_config = (\<lambda>ip n pw key ca sc. (''<plist/>'', None)),
       android_config = (\<lambda>ip n key ca. (''{}'', None)),
       osx_add_vpn = (\<lambda>p. None) \<rparr>"

text \<open>A Deployment as \<^verbatim>\<open>New\<close> returns it.\<close>

definition sample_deployment :: "bool \<Rightarrow> Deployment" where
  "sample_deployment autoConfigure =
     \<lparr> Region = ''nyc1'', AutoConfigure = autoConfigure, Name = ''dosxvpn-557-nyc1'',
       Token = ''tok'', services = [CoreosService, DosxvpnService, PiholeService],
       userData = ''#cloud-config'', dropletIP = [], dropletID = 0,
       doClient = DoClient ''tok'', sshClient = SshClient ''ssh-rsa AAAA'',
       VpnPassword = [], Status = ''pending auth'', VPNIPAddress = [],
       InitialPublicIP = [], FinalPublicIP = [] \<rparr>"

text \<open>The same with a port that never opens.\<close>

definition closed_port_env :: env where
  "closed_port_env = sample_env\<lparr>tcp_connect := (\<lambda>k n a. (0, Some (Error ''connection refused'')))\<rparr>"

text \<open>The same when the endpoint that reports the public IP cannot be reached.\<close>

definition probe_down_env :: env where
  "probe_down_env =
     sample_env\<lparr>http_backend := (\<lambda>k url. (\<lparr>Body = ([], None)\<rparr>, Some (Error ''no route to host'')))\<rparr>"

text \<open>The sample environment when the CA certificate cannot be fetched.\<close>

definition ca_missing_env :: env where
  "ca_missing_env =
     sample_env\<lparr>container_file := (\<lambda>k sc u h ct f.
        if f = ''/etc/ipsec.d/cacerts/ca.cert.pem'' then ([], Some (Error ''No such container:path''))
        else (''contents of '' @ f, None))\<rparr>"

text \<open>
  The sample environment when no file can be written: every write fails at the open,
  as it does when the directory is not writable.
\<close>

definition readonly_env :: env where
  "readonly_env = sample_env\<lparr>write_file := (\<lambda>k f dat. Some (Error ''permission denied''))\<rparr>"

text \<open>
  The sample environment when the public IP is \<open>1.2.3.4\<close> for the first three requests
  and \<open>5.6.7.8\<close> for the fourth, and the fifth request fails.
\<close>

definition vpn_up_env :: env where
  "vpn_up_env =
     sample_env\<lparr>http_backend := (\<lambda>k url.
        if k < 3 then (\<lparr>Body = (''1.2.3.4'' @ [CHR 0x0A], None)\<rparr>, None)
        else if k = 3 then (\<lparr>Body = (''5.6.7.8'' @ [CHR 0x0A], None)\<rparr>, None)
        else (\<lparr>Body = ([], None)\<rparr>, Some (Error ''connection reset by peer'')))\<rparr>"

text \<open>
  The sample environment when the CA certificate cannot be fetched and no file can be
  written.
\<close>

definition unwritable_ca_missing_env :: env where
  "unwritable_ca_missing_env =
     ca_missing_env\<lparr>write_file := (\<lambda>k f dat. Some (Error ''permission denied''))\<rparr>"


section \<open>Properties\<close>

subsection \<open>Waiting for a port\<close>

lemma Itoa_22: "Itoa 22 = ''22''"
  by code_simp

lemma failed_attempts_Suc:
  "failed_attempts host port (Suc n) =
     [Dial ''tcp'' (host @ '':'' @ Itoa port), Sleep 5] @ failed_attempts host port n"
  by (simp add: failed_attempts_def)

text \<open>
  Whatever the connect backend does, the loop leaves through the return after a
  connection, with no error, or through the return after the loop, with the time-out
  error; the return of the connect error is never taken.
\<close>

lemma waitForPort_from_site:
  "fst (fst (waitForPort_from env host port a s)) \<noteq> ReturnConnErr \<and>
   (fst (waitForPort_from env host port a s) = (ReturnConnected, None) \<or>
    fst (waitForPort_from env host port a s) = (ReturnTimedOut, Some (timed_out_error port)))"
proof (induction env host port a s rule: waitForPort_from.induct)
  case (1 env host port attempt s)
  show ?case
  proof (cases "attempt < 15")
    case False
    then show ?thesis by (simp add: waitForPort_from.simps)
  next
    case True
    obtain c err s1 where d: "net_Dial env ''tcp'' (host @ '':'' @ Itoa port) s = ((c, err), s1)"
      by (metis prod.exhaust)
    show ?thesis
    proof (cases err)
      case None
      with True d show ?thesis by (simp add: waitForPort_from.simps)
    next
      case (Some e)
      with True d have "waitForPort_from env host port attempt s =
          waitForPort_from env host port (attempt + 1) (time_Sleep 5 s1)"
        by (simp add: waitForPort_from.simps)
      moreover from Some have "err \<noteq> None" by simp
      ultimately show ?thesis using "1.IH"[OF True d[symmetric] refl] by simp
    qed
  qed
qed

text \<open>\<open>n\<close> attempts are left and every one of them fails.\<close>

lemma waitForPort_from_all_fail:
  "(\<forall>i<n. snd (tcp_connect env (dial_calls s + i) ''tcp'' (host @ '':'' @ Itoa port)) \<noteq> None) \<Longrightarrow>
   a + n = 15 \<Longrightarrow>
   waitForPort_from env host port a s =
     ((ReturnTimedOut, Some (timed_out_error port)),
      s\<lparr>trace := trace s @ failed_attempts host port n, dial_calls := dial_calls s + n\<rparr>)"
proof (induction n arbitrary: a s)
  case 0
  then show ?case by (simp add: waitForPort_from.simps failed_attempts_def)
next
  case (Suc n)
  let ?s1 = "time_Sleep 5 ((emit (Dial ''tcp'' (host @ '':'' @ Itoa port)) s)\<lparr>dial_calls := Suc (dial_calls s)\<rparr>)"
  from Suc.prems have fail0: "snd (tcp_connect env (dial_calls s) ''tcp'' (host @ '':'' @ Itoa port)) \<noteq> None"
    by (metis add.right_neutral zero_less_Suc)
  from Suc.prems have rest: "\<forall>i<n. snd (tcp_connect env (dial_calls ?s1 + i) ''tcp'' (host @ '':'' @ Itoa port)) \<noteq> None"
    by (auto simp: time_Sleep_def emit_def)
  from Suc.prems have a: "a < 15" "Suc a + n = 15" by auto
  have step: "waitForPort_from env host port a s = waitForPort_from env host port (Suc a) ?s1"
    using a(1) fail0 by (subst waitForPort_from.simps) (simp add: net_Dial_def case_prod_beta)
  show ?case
    unfolding step Suc.IH[OF rest a(2)]
    by (simp add: time_Sleep_def emit_def failed_attempts_Suc)
qed

text \<open>\<open>m\<close> attempts fail and the next one, still within the fifteen, connects.\<close>

lemma waitForPort_from_success:
  "(\<forall>i<m. snd (tcp_connect env (dial_calls s + i) ''tcp'' (host @ '':'' @ Itoa port)) \<noteq> None) \<Longrightarrow>
   tcp_connect env (dial_calls s + m) ''tcp'' (host @ '':'' @ Itoa port) = (c, None) \<Longrightarrow>
   a + m < 15 \<Longrightarrow>
   waitForPort_from env host port a s =
     ((ReturnConnected, None),
      s\<lparr>trace := trace s @ failed_attempts host port m @ [Dial ''tcp'' (host @ '':'' @ Itoa port), ConnClose c],
        dial_calls := dial_calls s + Suc m\<rparr>)"
proof (induction m arbitrary: a s)
  case 0
  then show ?case
    by (subst waitForPort_from.simps)
       (simp add: net_Dial_def conn_Close_def emit_def failed_attempts_def)
next
  case (Suc m)
  let ?s1 = "time_Sleep 5 ((emit (Dial ''tcp'' (host @ '':'' @ Itoa port)) s)\<lparr>dial_calls := Suc (dial_calls s)\<rparr>)"
  from Suc.prems have fail0: "snd (tcp_connect env (dial_calls s) ''tcp'' (host @ '':'' @ Itoa port)) \<noteq> None"
    by (metis add.right_neutral zero_less_Suc)
  from Suc.prems have rest: "\<forall>i<m. snd (tcp_connect env (dial_calls ?s1 + i) ''tcp'' (host @ '':'' @ Itoa port)) \<noteq> None"
    by (auto simp: time_Sleep_def emit_def)
  from Suc.prems have ok: "tcp_connect env (dial_calls ?s1 + m) ''tcp'' (host @ '':'' @ Itoa port) = (c, None)"
    by (simp add: time_Sleep_def emit_def)
  from Suc.prems have a: "a < 15" "Suc a + m < 15" by auto
  have step: "waitForPort_from env host port a s = waitForPort_from env host port (Suc a) ?s1"
    using a(1) fail0 by (subst waitForPort_from.simps) (simp add: net_Dial_def case_prod_beta)
  show ?case
    unfolding step Suc.IH[OF rest ok a(2)]
    by (simp add: time_Sleep_def emit_def failed_attempts_Suc)
qed

text \<open>
  Claim C3. For every host and port: when each of the fifteen connect attempts fails,
  \<^verbatim>\<open>waitForPort\<close> returns the time-out error, and it has then made exactly fifteen
  connect attempts, each followed by a sleep of five seconds, and nothing else. The
  function is total, so it always returns.
\<close>

theorem waitForPort_times_out:
  assumes "\<forall>i<15. snd (tcp_connect env (dial_calls s + i) ''tcp'' (host @ '':'' @ Itoa port)) \<noteq> None"
  shows "waitForPort env host port s =
           (Some (timed_out_error port),
            s\<lparr>trace := trace s @ failed_attempts host port 15, dial_calls := dial_calls s + 15\<rparr>)"
  using waitForPort_from_all_fail[OF assms, of 0] by (simp add: waitForPort_def)

theorem waitForPort_times_out_witness:
  "fst (waitForPort closed_port_env ''203.0.113.7'' 22 fresh_sys)
     = Some (Error ''timed out waiting for port 22 to open'') \<and>
   dial_calls (snd (waitForPort closed_port_env ''203.0.113.7'' 22 fresh_sys)) = 15 \<and>
   length (trace (snd (waitForPort closed_port_env ''203.0.113.7'' 22 fresh_sys))) = 30"
proof -
  have h: "\<forall>i<15. snd (tcp_connect closed_port_env (dial_calls fresh_sys + i) ''tcp''
                          (''203.0.113.7'' @ '':'' @ Itoa 22)) \<noteq> None"
    by (simp add: closed_port_env_def)
  show ?thesis
    unfolding waitForPort_times_out[OF h]
    by (simp add: timed_out_error_def Itoa_22 fresh_sys_def failed_attempts_def length_concat sum_list_replicate)
qed

text \<open>
  Claim C4. For every host and port: when the connect backend succeeds for the first
  time at attempt \<open>k\<close>, with \<open>1 \<le> k \<le> 15\<close>, \<^verbatim>\<open>waitForPort\<close> returns \<^verbatim>\<open>nil\<close>; it has
  made exactly \<open>k\<close> connect attempts, the last event is the close of the connection that
  attempt \<open>k\<close> returned, and nothing follows it.
\<close>

theorem waitForPort_first_success:
  assumes "1 \<le> k" and "k \<le> 15"
    and "\<forall>i<k - 1. snd (tcp_connect env (dial_calls s + i) ''tcp'' (host @ '':'' @ Itoa port)) \<noteq> None"
    and "tcp_connect env (dial_calls s + (k - 1)) ''tcp'' (host @ '':'' @ Itoa port) = (c, None)"
  shows "waitForPort env host port s =
           (None,
            s\<lparr>trace := trace s @ failed_attempts host port (k - 1)
                           @ [Dial ''tcp'' (host @ '':'' @ Itoa port), ConnClose c],
              dial_calls := dial_calls s + k\<rparr>)"
proof -
  from assms(1,2) have "0 + (k - 1) < 15" by simp
  from waitForPort_from_success[OF assms(3,4) this] assms(1)
  show ?thesis by (simp add: waitForPort_def)
qed

theorem waitForPort_first_success_witness:
  "waitForPort sample_env ''203.0.113.7'' 22 fresh_sys =
     (None,
      fresh_sys\<lparr>trace := [Dial ''tcp'' ''203.0.113.7:22'', Sleep 5,
                          Dial ''tcp'' ''203.0.113.7:22'', Sleep 5,
                          Dial ''tcp'' ''203.0.113.7:22'', ConnClose 7],
                dial_calls := 3\<rparr>)"
proof -
  have h1: "(1::nat) \<le> 3" and h2: "(3::nat) \<le> 15" by simp_all
  have h3: "\<forall>i<3 - 1. snd (tcp_connect sample_env (dial_calls fresh_sys + i) ''tcp''
                              (''203.0.113.7'' @ '':'' @ Itoa 22)) \<noteq> None"
    by (simp add: sample_env_def fresh_sys_def)
  have h4: "tcp_connect sample_env (dial_calls fresh_sys + (3 - 1)) ''tcp''
              (''203.0.113.7'' @ '':'' @ Itoa 22) = (7, None)"
    by (simp add: sample_env_def fresh_sys_def)
  show ?thesis
    unfolding waitForPort_first_success[OF h1 h2 h3 h4]
    by (simp add: Itoa_22 fresh_sys_def failed_attempts_def numeral_3_eq_3)
qed

text \<open>
  Claim C10. For every host, port and behaviour of the connect backend,
  \<^verbatim>\<open>waitForPort\<close> returns \<^verbatim>\<open>nil\<close> or the time-out error, and the return statement of
  the \<^verbatim>\<open>else if err != nil\<close> arm is not the one it leaves through.
\<close>

theorem waitForPort_connect_error_arm_dead:
  "fst (fst (waitForPort_from env host port 0 s)) \<noteq> ReturnConnErr \<and>
   (fst (waitForPort env host port s) = None \<or>
    fst (waitForPort env host port s) = Some (timed_out_error port))"
proof -
  from waitForPort_from_site[of env host port 0 s]
  show ?thesis by (auto simp: waitForPort_def case_prod_beta)
qed

subsection \<open>What each call does to the state\<close>

lemma getPublicIp_state:
  "snd (getPublicIp env s) = (emit (HttpGet ''http://checkip.amazonaws.com/'') s)\<lparr>http_calls := Suc (http_calls s)\<rparr>"
  by (simp add: getPublicIp_def http_Get_def case_prod_beta split: option.splits)

lemma waitForPort_from_step:
  "a < 15 \<Longrightarrow> snd (tcp_connect env (dial_calls s) ''tcp'' (host @ '':'' @ Itoa port)) \<noteq> None \<Longrightarrow>
   waitForPort_from env host port a s =
     waitForPort_from env host port (Suc a)
       (time_Sleep 5 ((emit (Dial ''tcp'' (host @ '':'' @ Itoa port)) s)\<lparr>dial_calls := Suc (dial_calls s)\<rparr>))"
  by (subst waitForPort_from.simps) (simp add: net_Dial_def case_prod_beta)

lemma waitForPort_from_stop:
  "a < 15 \<Longrightarrow> snd (tcp_connect env (dial_calls s) ''tcp'' (host @ '':'' @ Itoa port)) = None \<Longrightarrow>
   waitForPort_from env host port a s =
     ((ReturnConnected, None),
       s\<lparr>trace := trace s @ [Dial ''tcp'' (host @ '':'' @ Itoa port),
            ConnClose (fst (tcp_connect env (dial_calls s) ''tcp'' (host @ '':'' @ Itoa port)))],
          dial_calls := Suc (dial_calls s)\<rparr>)"
  by (subst waitForPort_from.simps) (simp add: net_Dial_def case_prod_beta conn_Close_def emit_def)

lemma waitForPort_from_end:
  "\<not> a < 15 \<Longrightarrow> waitForPort_from env host port a s = ((ReturnTimedOut, Some (timed_out_error port)), s)"
  by (subst waitForPort_from.simps) simp

lemma waitForPort_from_frame:
  "files (snd (waitForPort_from env host port a s)) = files s \<and>
   http_calls (snd (waitForPort_from env host port a s)) = http_calls s \<and>
   fetch_calls (snd (waitForPort_from env host port a s)) = fetch_calls s \<and>
   mkdir_calls (snd (waitForPort_from env host port a s)) = mkdir_calls s \<and>
   write_calls (snd (waitForPort_from env host port a s)) = write_calls s \<and>
   now_calls (snd (waitForPort_from env host port a s)) = now_calls s \<and>
   sshnew_calls (snd (waitForPort_from env host port a s)) = sshnew_calls s"
proof (induction "15 - a" arbitrary: a s)
  case 0
  then show ?case by (simp add: waitForPort_from_end)
next
  case (Suc n)
  then have a: "a < 15" and n: "n = 15 - Suc a" by auto
  show ?case
  proof (cases "snd (tcp_connect env (dial_calls s) ''tcp'' (host @ '':'' @ Itoa port)) = None")
    case True
    then show ?thesis by (simp add: waitForPort_from_stop[OF a])
  next
    case False
    show ?thesis
      unfolding waitForPort_from_step[OF a False] using Suc.hyps(1)[OF n]
      by (simp add: time_Sleep_def emit_def)
  qed
qed

lemma waitForPort_from_filter:
  assumes "\<And>n a. \<not> P (Dial n a)" and "\<And>c. \<not> P (ConnClose c)" and "\<And>n. \<not> P (Sleep n)"
  shows "filter P (trace (snd (waitForPort_from env host port a s))) = filter P (trace s)"
proof (induction "15 - a" arbitrary: a s)
  case 0
  then show ?case by (simp add: waitForPort_from_end)
next
  case (Suc n)
  then have a: "a < 15" and n: "n = 15 - Suc a" by auto
  show ?case
  proof (cases "snd (tcp_connect env (dial_calls s) ''tcp'' (host @ '':'' @ Itoa port)) = None")
    case True
    then show ?thesis by (simp add: waitForPort_from_stop[OF a] assms)
  next
    case False
    show ?thesis
      unfolding waitForPort_from_step[OF a False] using Suc.hyps(1)[OF n]
      by (simp add: time_Sleep_def emit_def assms)
  qed
qed


lemma Run_ip_loop_end: "\<not> j < 10 \<Longrightarrow> Run_ip_loop env ip j d s = (d, s)"
  by (subst Run_ip_loop.simps) simp

lemma Run_ip_loop_step:
  "j < 10 \<Longrightarrow> \<not> ip_changed ip (fst (getPublicIp env (time_Sleep 5 s))) \<Longrightarrow>
   Run_ip_loop env ip j d s = Run_ip_loop env ip (Suc j) d (snd (getPublicIp env (time_Sleep 5 s)))"
  by (subst Run_ip_loop.simps) (auto simp add: ip_changed_def case_prod_beta Let_def)

lemma Run_ip_loop_stop:
  "j < 10 \<Longrightarrow> ip_changed ip (fst (getPublicIp env (time_Sleep 5 s))) \<Longrightarrow>
   Run_ip_loop env ip j d s =
     (d\<lparr>FinalPublicIP := fst (fst (getPublicIp env (snd (getPublicIp env (time_Sleep 5 s)))))\<rparr>,
      snd (getPublicIp env (snd (getPublicIp env (time_Sleep 5 s)))))"
  by (subst Run_ip_loop.simps) (auto simp add: ip_changed_def case_prod_beta Let_def)

lemma Run_ip_loop_frame:
  "files (snd (Run_ip_loop env ip j d s)) = files s \<and>
   dial_calls (snd (Run_ip_loop env ip j d s)) = dial_calls s \<and>
   fetch_calls (snd (Run_ip_loop env ip j d s)) = fetch_calls s \<and>
   mkdir_calls (snd (Run_ip_loop env ip j d s)) = mkdir_calls s \<and>
   write_calls (snd (Run_ip_loop env ip j d s)) = write_calls s \<and>
   now_calls (snd (Run_ip_loop env ip j d s)) = now_calls s \<and>
   sshnew_calls (snd (Run_ip_loop env ip j d s)) = sshnew_calls s \<and>
   fst (Run_ip_loop env ip j d s) = d\<lparr>FinalPublicIP := FinalPublicIP (fst (Run_ip_loop env ip j d s))\<rparr>"
proof (induction "10 - j" arbitrary: j s)
  case 0
  then show ?case by (simp add: Run_ip_loop_end)
next
  case (Suc n)
  then have j: "j < 10" and n: "n = 10 - Suc j" by auto
  show ?case
  proof (cases "ip_changed ip (fst (getPublicIp env (time_Sleep 5 s)))")
    case True
    then show ?thesis
      by (simp add: Run_ip_loop_stop[OF j] getPublicIp_state time_Sleep_def emit_def)
  next
    case False
    show ?thesis
      unfolding Run_ip_loop_step[OF j False] using Suc.hyps(1)[OF n]
      by (simp add: getPublicIp_state time_Sleep_def emit_def)
  qed
qed

lemma Run_ip_loop_filter:
  assumes "\<And>u. \<not> P (HttpGet u)" and "\<And>n. \<not> P (Sleep n)"
  shows "filter P (trace (snd (Run_ip_loop env ip j d s))) = filter P (trace s)"
proof (induction "10 - j" arbitrary: j s)
  case 0
  then show ?case by (simp add: Run_ip_loop_end)
next
  case (Suc n)
  then have j: "j < 10" and n: "n = 10 - Suc j" by auto
  show ?case
  proof (cases "ip_changed ip (fst (getPublicIp env (time_Sleep 5 s)))")
    case True
    then show ?thesis
      by (simp add: Run_ip_loop_stop[OF j] getPublicIp_state time_Sleep_def emit_def assms)
  next
    case False
    show ?thesis
      unfolding Run_ip_loop_step[OF j False] using Suc.hyps(1)[OF n]
      by (simp add: getPublicIp_state time_Sleep_def emit_def assms)
  qed
qed

lemma waitForSSH_state: "snd (waitForSSH env ip s) = snd (waitForPort_from env ip 22 0 s)"
  by (simp add: waitForSSH_def waitForPort_def case_prod_beta)

lemma saveConfig_state:
  "snd (saveConfig env c f s) =
     s\<lparr>files := disk_write (write_file env (write_calls s) f c)
                     (write_progress env (write_calls s) f c) (files s) f c,
       trace := trace s @ [MkdirAll (FilepathDosxvpnConfigDir env), WriteFile f c],
       mkdir_calls := Suc (mkdir_calls s),
       write_calls := Suc (write_calls s)\<rparr>"
  by (simp add: saveConfig_def os_MkdirAll_def ioutil_WriteFile_def emit_def Let_def split: option.splits)

lemma fetch_state:
  "snd (sshClient_GetFileFromContainer env c u h ct f s) =
     s\<lparr>trace := trace s @ [GetFileFromContainer u h ct f], fetch_calls := Suc (fetch_calls s)\<rparr>"
  "fst (sshClient_GetFileFromContainer env c u h ct f s) = container_file env (fetch_calls s) c u h ct f"
  by (simp_all add: sshClient_GetFileFromContainer_def emit_def)

lemma gen_state:
  "snd (genconfig_GenerateAppleConfig env ip n pw k ca sc s) = s\<lparr>trace := trace s @ [GenerateAppleConfig]\<rparr>"
  "fst (genconfig_GenerateAppleConfig env ip n pw k ca sc s) = apple_config env ip n pw k ca sc"
  "snd (genconfig_GenerateAndroidConfig env ip n k ca s) = s\<lparr>trace := trace s @ [GenerateAndroidConfig]\<rparr>"
  "fst (genconfig_GenerateAndroidConfig env ip n k ca s) = android_config env ip n k ca"
  by (simp_all add: genconfig_GenerateAppleConfig_def genconfig_GenerateAndroidConfig_def emit_def)

lemma prov_state:
  "snd (doClient_CreateDroplet env c n r sz ud img s) = s\<lparr>trace := trace s @ [CreateDroplet n r sz ud img]\<rparr>"
  "fst (doClient_CreateDroplet env c n r sz ud img s) = create_droplet env c n r sz ud img"
  "snd (doClient_WaitForDropletIP env c did s) = s\<lparr>trace := trace s @ [WaitForDropletIP did]\<rparr>"
  "fst (doClient_WaitForDropletIP env c did s) = wait_droplet_ip env c did"
  "snd (doClient_CreateFirewall env c n did s) = s\<lparr>trace := trace s @ [CreateFirewall n did]\<rparr>"
  "fst (doClient_CreateFirewall env c n did s) = create_firewall env c n did"
  "snd (sshClient_Run env sc u h cmd s) = s\<lparr>trace := trace s @ [SshRun u h cmd]\<rparr>"
  "fst (sshClient_Run env sc u h cmd s) = ssh_run env sc u h cmd"
  by (simp_all add: doClient_CreateDroplet_def doClient_WaitForDropletIP_def doClient_CreateFirewall_def
        sshClient_Run_def emit_def)

subsection \<open>The three parts of Run\<close>

text \<open>
  The provisioning part, whichever way it ends: it probes the public IP once, asks for
  the droplet once, leaves the disk and the fetch and write counters alone, and keeps
  the result of the probe as the baseline. When it ends without error it has written the
  status \<open>waiting for ssh\<close> and nothing else to \<open>Status\<close>.
\<close>

lemma Run_provision_facts:
  "http_calls (snd (snd (snd (Run_provision env d s)))) = Suc (http_calls s) \<and>
   filter is_HttpGet (trace (snd (snd (snd (Run_provision env d s))))) =
     filter is_HttpGet (trace s) @ [HttpGet ''http://checkip.amazonaws.com/''] \<and>
   filter is_CreateDroplet (trace (snd (snd (snd (Run_provision env d s))))) =
     filter is_CreateDroplet (trace s)
       @ [CreateDroplet (Name d) (Region d) DropletSize (userData d) DropletImage] \<and>
   files (snd (snd (snd (Run_provision env d s)))) = files s \<and>
   fetch_calls (snd (snd (snd (Run_provision env d s)))) = fetch_calls s \<and>
   write_calls (snd (snd (snd (Run_provision env d s)))) = write_calls s \<and>
   mkdir_calls (snd (snd (snd (Run_provision env d s)))) = mkdir_calls s \<and>
   fst (snd (Run_provision env d s)) = fst (fst (getPublicIp env s)) \<and>
   InitialPublicIP (fst (snd (snd (Run_provision env d s)))) = fst (fst (getPublicIp env s)) \<and>
   AutoConfigure (fst (snd (snd (Run_provision env d s)))) = AutoConfigure d \<and>
   Name (fst (snd (snd (Run_provision env d s)))) = Name d \<and>
   sshClient (fst (snd (snd (Run_provision env d s)))) = sshClient d \<and>
   (fst (Run_provision env d s) = None \<longrightarrow>
      status_writes (trace (snd (snd (snd (Run_provision env d s))))) =
        status_writes (trace s) @ [''waiting for ssh''] \<and>
      Status (fst (snd (snd (Run_provision env d s)))) = ''waiting for ssh'')"
proof -
  obtain did e1 where c1: "create_droplet env (doClient d) (Name d) (Region d) DropletSize (userData d) DropletImage = (did, e1)"
    by (metis prod.exhaust)
  show ?thesis
  proof (cases e1)
    case (Some e)
    then show ?thesis
      by (simp add: Run_provision_def Let_def case_prod_beta getPublicIp_state prov_state waitForSSH_state waitForPort_from_frame waitForPort_from_filter set_Status_def emit_def status_writes_def c1)
  next
    case None
    note c1 = c1[unfolded None]
    obtain vip e2 where c2: "wait_droplet_ip env (doClient d) did = (vip, e2)"
      by (metis prod.exhaust)
    show ?thesis
    proof (cases e2)
      case (Some e)
      then show ?thesis
        by (simp add: Run_provision_def Let_def case_prod_beta getPublicIp_state prov_state waitForSSH_state waitForPort_from_frame waitForPort_from_filter set_Status_def emit_def status_writes_def c1 c2)
    next
      case None
      note c2 = c2[unfolded None]
      show ?thesis
      proof (cases "create_firewall env (doClient d) (Name d) did")
        case (Some e)
        then show ?thesis
          by (simp add: Run_provision_def Let_def case_prod_beta getPublicIp_state prov_state waitForSSH_state waitForPort_from_frame waitForPort_from_filter set_Status_def emit_def status_writes_def c1 c2)
      next
        case None
        then show ?thesis
          by (simp add: Run_provision_def Let_def case_prod_beta getPublicIp_state prov_state waitForSSH_state waitForPort_from_frame waitForPort_from_filter set_Status_def emit_def status_writes_def c1 c2 split: option.split)
      qed
    qed
  qed

qed

lemma Run_provision_filter:
  assumes P: "\<And>u. \<not> P (HttpGet u)" "\<And>n r sz ud img. \<not> P (CreateDroplet n r sz ud img)"
    "\<And>i. \<not> P (WaitForDropletIP i)" "\<And>n i. \<not> P (CreateFirewall n i)" "\<And>v. \<not> P (SetStatus v)"
    "\<And>n a. \<not> P (Dial n a)" "\<And>c. \<not> P (ConnClose c)" "\<And>n. \<not> P (Sleep n)"
    "\<And>u h c. \<not> P (SshRun u h c)"
  shows "filter P (trace (snd (snd (snd (Run_provision env d s))))) = filter P (trace s)"
proof -
  obtain did e1 where c1: "create_droplet env (doClient d) (Name d) (Region d) DropletSize (userData d) DropletImage = (did, e1)"
    by (metis prod.exhaust)
  show ?thesis
  proof (cases e1)
    case (Some e)
    then show ?thesis
      by (simp add: Run_provision_def Let_def case_prod_beta getPublicIp_state prov_state waitForSSH_state waitForPort_from_frame waitForPort_from_filter set_Status_def emit_def status_writes_def P c1)
  next
    case None
    note c1 = c1[unfolded None]
    obtain vip e2 where c2: "wait_droplet_ip env (doClient d) did = (vip, e2)"
      by (metis prod.exhaust)
    show ?thesis
    proof (cases e2)
      case (Some e)
      then show ?thesis
        by (simp add: Run_provision_def Let_def case_prod_beta getPublicIp_state prov_state waitForSSH_state waitForPort_from_frame waitForPort_from_filter set_Status_def emit_def status_writes_def P c1 c2)
    next
      case None
      note c2 = c2[unfolded None]
      show ?thesis
      proof (cases "create_firewall env (doClient d) (Name d) did")
        case (Some e)
        then show ?thesis
          by (simp add: Run_provision_def Let_def case_prod_beta getPublicIp_state prov_state waitForSSH_state waitForPort_from_frame waitForPort_from_filter set_Status_def emit_def status_writes_def P c1 c2)
      next
        case None
        then show ?thesis
          by (simp add: Run_provision_def Let_def case_prod_beta getPublicIp_state prov_state waitForSSH_state waitForPort_from_frame waitForPort_from_filter set_Status_def emit_def status_writes_def P c1 c2 split: option.split)
      qed
    qed
  qed

qed

text \<open>
  The artifact part, whichever way it ends: of the Deployment it changes \<open>VpnPassword\<close>
  only, it makes no HTTP request, and the only events it adds are fetches, directory
  creations, writes and renderings.
\<close>

lemma Run_artifacts_frame:
  assumes P: "\<And>u h c f. \<not> P (GetFileFromContainer u h c f)" "\<And>x. \<not> P (MkdirAll x)"
     "\<And>f c. \<not> P (WriteFile f c)" "\<not> P GenerateAppleConfig" "\<not> P GenerateAndroidConfig"
  shows "filter P (trace (snd (snd (Run_artifacts env d s)))) = filter P (trace s) \<and>
         http_calls (snd (snd (Run_artifacts env d s))) = http_calls s \<and>
         fst (snd (Run_artifacts env d s)) = d\<lparr>VpnPassword := VpnPassword (fst (snd (Run_artifacts env d s)))\<rparr>"
proof -
  obtain pw e0 where f0: "container_file env (fetch_calls s) (sshClient d) ''core'' (dropletIP d) ''dosxvpn'' ''/etc/ipsec.d/client.cert.p12.password'' = (pw, e0)"
    by (metis prod.exhaust)
  show ?thesis
  proof (cases e0)
    case (Some e)
    then show ?thesis
      by (simp add: Run_artifacts_def Let_def case_prod_beta fetch_state saveConfig_state gen_state P f0)
  next
    case None
    note f0 = f0[unfolded None]
    obtain key e1 where f1: "container_file env (Suc (fetch_calls s)) (sshClient d) ''core'' (dropletIP d) ''dosxvpn'' ''/etc/ipsec.d/client.cert.p12'' = (key, e1)"
      by (metis prod.exhaust)
    show ?thesis
    proof (cases e1)
      case (Some e)
      then show ?thesis
        by (simp add: Run_artifacts_def Let_def case_prod_beta fetch_state saveConfig_state gen_state P f0 f1)
    next
      case None
      note f1 = f1[unfolded None]
      obtain ca e2 where f2: "container_file env (Suc (Suc (fetch_calls s))) (sshClient d) ''core'' (dropletIP d) ''dosxvpn'' ''/etc/ipsec.d/cacerts/ca.cert.pem'' = (ca, e2)"
        by (metis prod.exhaust)
      show ?thesis
      proof (cases e2)
        case (Some e)
        then show ?thesis
          by (simp add: Run_artifacts_def Let_def case_prod_beta fetch_state saveConfig_state gen_state P f0 f1 f2)
      next
        case None
        note f2 = f2[unfolded None]
        obtain sc e3 where f3: "container_file env (Suc (Suc (Suc (fetch_calls s)))) (sshClient d) ''core'' (dropletIP d) ''dosxvpn'' ''/etc/ipsec.d/certs/server.cert.pem'' = (sc, e3)"
          by (metis prod.exhaust)
        show ?thesis
        proof (cases e3)
          case (Some e)
          then show ?thesis
            by (simp add: Run_artifacts_def Let_def case_prod_beta fetch_state saveConfig_state gen_state P f0 f1 f2 f3)
        next
          case None
          note f3 = f3[unfolded None]
          obtain apple e4 where f4: "apple_config env (dropletIP d) (Name d) pw key ca sc = (apple, e4)"
            by (metis prod.exhaust)
          show ?thesis
          proof (cases e4)
            case (Some e)
            then show ?thesis
              by (simp add: Run_artifacts_def Let_def case_prod_beta fetch_state saveConfig_state gen_state P f0 f1 f2 f3 f4)
          next
            case None
            note f4 = f4[unfolded None]
            obtain android e5 where f5: "android_config env (dropletIP d) (Name d) key ca = (android, e5)"
              by (metis prod.exhaust)
            show ?thesis
            proof (cases e5)
              case (Some e)
              then show ?thesis
                by (simp add: Run_artifacts_def Let_def case_prod_beta fetch_state saveConfig_state gen_state P f0 f1 f2 f3 f4 f5)
            next
              case None
              note f5 = f5[unfolded None]
              show ?thesis
                by (simp add: Run_artifacts_def Let_def case_prod_beta fetch_state saveConfig_state gen_state P f0 f1 f2 f3 f4 f5)
            qed
          qed
        qed
      qed
    qed
  qed

qed

subsection \<open>The loop that waits for the public IP to change\<close>

lemma getPublicIp_result: "fst (getPublicIp env s) = probe_result env (http_calls s)"
  by (simp add: probe_result_def getPublicIp_def http_Get_def case_prod_beta split: option.splits)

lemma probe_rounds_Suc:
  "probe_rounds (Suc n) = [Sleep 5, HttpGet ''http://checkip.amazonaws.com/''] @ probe_rounds n"
  by (simp add: probe_rounds_def)

text \<open>
  When none of the \<open>n\<close> rounds that are left sees a change, the loop makes \<open>n\<close> probes
  and leaves the Deployment as it was.
\<close>

lemma Run_ip_loop_unchanged:
  "(\<forall>i<n. \<not> ip_changed ip (probe_result env (http_calls s + i))) \<Longrightarrow> j + n = 10 \<Longrightarrow>
   Run_ip_loop env ip j d s =
     (d, s\<lparr>trace := trace s @ probe_rounds n, http_calls := http_calls s + n\<rparr>)"
proof (induction n arbitrary: j s)
  case 0
  then show ?case by (simp add: Run_ip_loop_end probe_rounds_def)
next
  case (Suc n)
  let ?s1 = "snd (getPublicIp env (time_Sleep 5 s))"
  have hc: "http_calls ?s1 = Suc (http_calls s)" "trace ?s1 = trace s @ [Sleep 5, HttpGet ''http://checkip.amazonaws.com/'']"
    by (simp_all add: getPublicIp_state time_Sleep_def emit_def)
  from Suc.prems have j: "j < 10" "Suc j + n = 10" by auto
  from Suc.prems have "\<not> ip_changed ip (probe_result env (http_calls s + 0))" by blast
  then have nc: "\<not> ip_changed ip (fst (getPublicIp env (time_Sleep 5 s)))"
    by (simp add: getPublicIp_result time_Sleep_def emit_def)
  from Suc.prems have rest: "\<forall>i<n. \<not> ip_changed ip (probe_result env (http_calls ?s1 + i))"
    by (auto simp: hc)
  show ?case
    unfolding Run_ip_loop_step[OF j(1) nc] Suc.IH[OF rest j(2)]
    by (simp add: hc getPublicIp_state time_Sleep_def emit_def probe_rounds_Suc)
qed

text \<open>
  When the round after \<open>m\<close> rounds without a change sees one, the loop makes one more
  request and stores what that request returns, error or not.
\<close>

lemma Run_ip_loop_changed:
  "(\<forall>i<m. \<not> ip_changed ip (probe_result env (http_calls s + i))) \<Longrightarrow>
   ip_changed ip (probe_result env (http_calls s + m)) \<Longrightarrow> j + m < 10 \<Longrightarrow>
   Run_ip_loop env ip j d s =
     (d\<lparr>FinalPublicIP := fst (probe_result env (http_calls s + m + 1))\<rparr>,
      s\<lparr>trace := trace s @ probe_rounds m
                     @ [Sleep 5, HttpGet ''http://checkip.amazonaws.com/'',
                        HttpGet ''http://checkip.amazonaws.com/''],
        http_calls := http_calls s + m + 2\<rparr>)"
proof (induction m arbitrary: j s)
  case 0
  then have j: "j < 10" by simp
  from 0 have ch: "ip_changed ip (fst (getPublicIp env (time_Sleep 5 s)))"
    by (simp add: getPublicIp_result time_Sleep_def emit_def)
  show ?case
    unfolding Run_ip_loop_stop[OF j ch]
    by (simp add: getPublicIp_state getPublicIp_result time_Sleep_def emit_def probe_rounds_def)
next
  case (Suc m)
  let ?s1 = "snd (getPublicIp env (time_Sleep 5 s))"
  have hc: "http_calls ?s1 = Suc (http_calls s)" "trace ?s1 = trace s @ [Sleep 5, HttpGet ''http://checkip.amazonaws.com/'']"
    by (simp_all add: getPublicIp_state time_Sleep_def emit_def)
  from Suc.prems have j: "j < 10" "Suc j + m < 10" by auto
  from Suc.prems have "\<not> ip_changed ip (probe_result env (http_calls s + 0))" by blast
  then have nc: "\<not> ip_changed ip (fst (getPublicIp env (time_Sleep 5 s)))"
    by (simp add: getPublicIp_result time_Sleep_def emit_def)
  from Suc.prems have rest: "\<forall>i<m. \<not> ip_changed ip (probe_result env (http_calls ?s1 + i))"
    by (auto simp: hc)
  from Suc.prems have ch: "ip_changed ip (probe_result env (http_calls ?s1 + m))"
    by (simp add: hc)
  show ?case
    unfolding Run_ip_loop_step[OF j(1) nc] Suc.IH[OF rest ch j(2)]
    by (simp add: hc getPublicIp_state time_Sleep_def emit_def probe_rounds_Suc)
qed

lemma Run_ip_loop_fields:
  "Status (fst (Run_ip_loop env ip j d s)) = Status d \<and>
   InitialPublicIP (fst (Run_ip_loop env ip j d s)) = InitialPublicIP d \<and>
   AutoConfigure (fst (Run_ip_loop env ip j d s)) = AutoConfigure d"
proof -
  have e: "fst (Run_ip_loop env ip j d s) = d\<lparr>FinalPublicIP := FinalPublicIP (fst (Run_ip_loop env ip j d s))\<rparr>"
    using Run_ip_loop_frame[of env ip j d s] by blast
  have "Status (fst (Run_ip_loop env ip j d s)) = Status (d\<lparr>FinalPublicIP := FinalPublicIP (fst (Run_ip_loop env ip j d s))\<rparr>)"
    using e by (rule arg_cong)
  moreover have "InitialPublicIP (fst (Run_ip_loop env ip j d s)) = InitialPublicIP (d\<lparr>FinalPublicIP := FinalPublicIP (fst (Run_ip_loop env ip j d s))\<rparr>)"
    using e by (rule arg_cong)
  moreover have "AutoConfigure (fst (Run_ip_loop env ip j d s)) = AutoConfigure (d\<lparr>FinalPublicIP := FinalPublicIP (fst (Run_ip_loop env ip j d s))\<rparr>)"
    using e by (rule arg_cong)
  ultimately show ?thesis by simp
qed

lemma Run_autoconfigure_off: "\<not> AutoConfigure d \<Longrightarrow> Run_autoconfigure env ip d s = (d, s)"
  by (simp add: Run_autoconfigure_def)

lemma Run_autoconfigure_on:
  "AutoConfigure d \<Longrightarrow>
   status_writes (trace (snd (Run_autoconfigure env ip d s))) =
     status_writes (trace s) @ [''adding vpn to osx'', ''waiting for ip address change'', ''done''] \<and>
   Status (fst (Run_autoconfigure env ip d s)) = ''done''"
  by (simp add: Run_autoconfigure_def set_Status_def vpn_OSXAddVPN_def emit_def case_prod_beta
        status_writes_def Run_ip_loop_filter)

lemma Run_autoconfigure_frame:
  assumes P: "\<And>v. \<not> P (SetStatus v)" "\<And>p. \<not> P (OSXAddVPN p)" "\<And>n. \<not> P (Sleep n)" "\<And>u. \<not> P (HttpGet u)"
  shows "filter P (trace (snd (Run_autoconfigure env ip d s))) = filter P (trace s) \<and>
         InitialPublicIP (fst (Run_autoconfigure env ip d s)) = InitialPublicIP d"
  by (simp add: Run_autoconfigure_def set_Status_def vpn_OSXAddVPN_def emit_def case_prod_beta
        Run_ip_loop_filter Run_ip_loop_fields P)

subsection \<open>The sample environment\<close>

lemma sample_env_simps:
  "create_droplet sample_env c n r sz ud img = (4242, None)"
  "wait_droplet_ip sample_env c i = (''203.0.113.7'', None)"
  "create_firewall sample_env c n i = None"
  "tcp_connect sample_env k nw a = (if k < 2 then (0, Some (Error ''connection refused'')) else (7, None))"
  "ssh_run sample_env sc u h cmd = ([], None)"
  "container_file sample_env k sc u h ct f = (''contents of '' @ f, None)"
  "mkdir_all sample_env k dir = None"
  "write_file sample_env k f dat = None"
  "write_progress sample_env k f dat = None"
  "apple_config sample_env ip n pw key ca sc' = (''<plist/>'', None)"
  "android_config sample_env ip n key ca = (''{}'', None)"
  "osx_add_vpn sample_env p = None"
  "http_backend sample_env k url = (\<lparr>Body = (''1.2.3.4'' @ [CHR 0x0A], None)\<rparr>, None)"
  by (simp_all add: sample_env_def)

subsection \<open>Run as a whole\<close>

lemma Run_outcome:
  "fst (Run env d s) =
     (case fst (Run_provision env d s) of
        Some e \<Rightarrow> Exited e
      | None \<Rightarrow>
          (case fst (Run_artifacts env (fst (snd (snd (Run_provision env d s))))
                       (snd (snd (snd (Run_provision env d s))))) of
             Some e \<Rightarrow> Returned (Some e)
           | None \<Rightarrow> Returned None))"
  by (simp add: Run_def case_prod_beta split: option.splits)

lemma Run_provision_ok:
  assumes "snd (create_droplet env (doClient d) (Name d) (Region d) DropletSize (userData d) DropletImage) = None"
    and "snd (wait_droplet_ip env (doClient d)
           (fst (create_droplet env (doClient d) (Name d) (Region d) DropletSize (userData d) DropletImage))) = None"
    and "create_firewall env (doClient d) (Name d)
           (fst (create_droplet env (doClient d) (Name d) (Region d) DropletSize (userData d) DropletImage)) = None"
    and "\<And>ip s'. dial_calls s' = dial_calls s \<Longrightarrow> fst (waitForSSH env ip s') = None"
    and "\<And>sc u h cmd. snd (ssh_run env sc u h cmd) = None"
  shows "fst (Run_provision env d s) = None"
  using assms(1,2,3,5)
  by (simp add: Run_provision_def Let_def case_prod_beta getPublicIp_state prov_state set_Status_def emit_def assms(4))

lemma sample_waitForSSH:
  assumes "dial_calls s = 0" and "\<And>k nw a. tcp_connect env k nw a = tcp_connect sample_env k nw a"
  shows "fst (waitForSSH env ip s) = None"
proof -
  have 1: "\<forall>i<2. snd (tcp_connect env (dial_calls s + i) ''tcp'' (ip @ '':'' @ Itoa 22)) \<noteq> None"
    by (simp add: assms sample_env_simps)
  have 2: "tcp_connect env (dial_calls s + 2) ''tcp'' (ip @ '':'' @ Itoa 22) = (7, None)"
    by (simp add: assms sample_env_simps)
  show ?thesis
    using waitForPort_from_success[OF 1 2, of 0]
    by (simp add: waitForSSH_def waitForPort_def)
qed

lemma sample_provision:
  assumes "\<And>k nw a. tcp_connect env k nw a = tcp_connect sample_env k nw a"
    and "create_droplet env = create_droplet sample_env"
    and "wait_droplet_ip env = wait_droplet_ip sample_env"
    and "create_firewall env = create_firewall sample_env"
    and "ssh_run env = ssh_run sample_env"
  shows "fst (Run_provision env d fresh_sys) = None"
proof (rule Run_provision_ok)
  fix ip and s' :: sys assume "dial_calls s' = dial_calls fresh_sys"
  then have "dial_calls s' = 0" by (simp add: fresh_sys_def)
  then show "fst (waitForSSH env ip s') = None" using assms(1) by (rule sample_waitForSSH)
qed (simp_all add: assms sample_env_simps)

lemma sample_artifacts:
  assumes "container_file env = container_file sample_env"
    and "apple_config env = apple_config sample_env"
    and "android_config env = android_config sample_env"
  shows "fst (Run_artifacts env d s) = None"
  by (simp add: Run_artifacts_def Let_def case_prod_beta fetch_state saveConfig_state gen_state assms sample_env_simps)

lemma sample_Run_returns: "fst (Run sample_env (sample_deployment ac) fresh_sys) = Returned None"
  by (simp add: Run_outcome sample_provision sample_artifacts)

lemma Run_state:
  "snd (Run env d s) =
     (case fst (Run_provision env d s) of
        Some e \<Rightarrow> snd (snd (Run_provision env d s))
      | None \<Rightarrow>
          (case fst (Run_artifacts env (fst (snd (snd (Run_provision env d s))))
                       (snd (snd (snd (Run_provision env d s))))) of
             Some e \<Rightarrow> snd (Run_artifacts env (fst (snd (snd (Run_provision env d s))))
                            (snd (snd (snd (Run_provision env d s)))))
           | None \<Rightarrow>
               Run_autoconfigure env (fst (snd (Run_provision env d s)))
                 (fst (snd (Run_artifacts env (fst (snd (snd (Run_provision env d s))))
                            (snd (snd (snd (Run_provision env d s)))))))
                 (snd (snd (Run_artifacts env (fst (snd (snd (Run_provision env d s))))
                            (snd (snd (snd (Run_provision env d s)))))))))"
  by (simp add: Run_def case_prod_beta split: option.splits)

lemma Run_artifacts_AutoConfigure:
  "AutoConfigure (fst (snd (Run_artifacts env d s))) = AutoConfigure d \<and>
   InitialPublicIP (fst (snd (Run_artifacts env d s))) = InitialPublicIP d \<and>
   Status (fst (snd (Run_artifacts env d s))) = Status d"
proof -
  have e: "fst (snd (Run_artifacts env d s)) = d\<lparr>VpnPassword := VpnPassword (fst (snd (Run_artifacts env d s)))\<rparr>"
    using Run_artifacts_frame[of "\<lambda>e. False" env d s] by simp
  have "AutoConfigure (fst (snd (Run_artifacts env d s))) = AutoConfigure (d\<lparr>VpnPassword := VpnPassword (fst (snd (Run_artifacts env d s)))\<rparr>)"
    using e by (rule arg_cong)
  moreover have "InitialPublicIP (fst (snd (Run_artifacts env d s))) = InitialPublicIP (d\<lparr>VpnPassword := VpnPassword (fst (snd (Run_artifacts env d s)))\<rparr>)"
    using e by (rule arg_cong)
  moreover have "Status (fst (snd (Run_artifacts env d s))) = Status (d\<lparr>VpnPassword := VpnPassword (fst (snd (Run_artifacts env d s)))\<rparr>)"
    using e by (rule arg_cong)
  ultimately show ?thesis by simp
qed

text \<open>
  Claim C7. For every run with \<open>autoConfigure = false\<close>, however it ends: the run adds
  no call of the local network-settings mutator (\<^verbatim>\<open>vpn.OSXAddVPN\<close>) to the trace, and
  it makes exactly one HTTP request for the public IP, the one that takes the baseline at
  the start. Every round of the loop that waits for the IP to change makes such a
  request, so no round of it is run.
\<close>

theorem Run_without_autoConfigure:
  assumes "\<not> AutoConfigure d"
  shows "filter is_OSXAddVPN (trace (snd (snd (Run env d s)))) = filter is_OSXAddVPN (trace s) \<and>
         filter is_HttpGet (trace (snd (snd (Run env d s)))) =
           filter is_HttpGet (trace s) @ [HttpGet ''http://checkip.amazonaws.com/''] \<and>
         http_calls (snd (snd (Run env d s))) = Suc (http_calls s)"
proof -
  let ?p = "Run_provision env d s"
  let ?d1 = "fst (snd (snd ?p))" and ?s1 = "snd (snd (snd ?p))"
  let ?a = "Run_artifacts env ?d1 ?s1"
  have off: "\<not> AutoConfigure (fst (snd ?a))"
    using assms Run_provision_facts[of env d s] Run_artifacts_AutoConfigure[of env ?d1 ?s1] by simp
  have p1: "filter is_OSXAddVPN (trace ?s1) = filter is_OSXAddVPN (trace s)"
    by (rule Run_provision_filter) simp_all
  have p2: "filter is_HttpGet (trace ?s1) = filter is_HttpGet (trace s) @ [HttpGet ''http://checkip.amazonaws.com/'']"
    and p3: "http_calls ?s1 = Suc (http_calls s)"
    using Run_provision_facts[of env d s] by simp_all
  have a1: "filter is_OSXAddVPN (trace (snd (snd ?a))) = filter is_OSXAddVPN (trace ?s1)"
    using Run_artifacts_frame[of is_OSXAddVPN env ?d1 ?s1] by simp
  have a2: "filter is_HttpGet (trace (snd (snd ?a))) = filter is_HttpGet (trace ?s1)"
    and a3: "http_calls (snd (snd ?a)) = http_calls ?s1"
    using Run_artifacts_frame[of is_HttpGet env ?d1 ?s1] by simp_all
  show ?thesis
    by (simp add: Run_state Run_autoconfigure_off[OF off] p1 p2 p3 a1 a2 a3 split: option.split)
qed

theorem Run_without_autoConfigure_witness:
  "filter is_OSXAddVPN (trace (snd (snd (Run sample_env (sample_deployment False) fresh_sys)))) = [] \<and>
   filter is_HttpGet (trace (snd (snd (Run sample_env (sample_deployment False) fresh_sys))))
     = [HttpGet ''http://checkip.amazonaws.com/''] \<and>
   http_calls (snd (snd (Run sample_env (sample_deployment False) fresh_sys))) = 1"
proof -
  have h: "\<not> AutoConfigure (sample_deployment False)" by (simp add: sample_deployment_def)
  show ?thesis
    using Run_without_autoConfigure[OF h, of sample_env fresh_sys] by (simp add: fresh_sys_def)
qed

lemma getPublicIp_fails:
  assumes "snd (http_backend env (http_calls s) ''http://checkip.amazonaws.com/'') \<noteq> None \<or>
           snd (Body (fst (http_backend env (http_calls s) ''http://checkip.amazonaws.com/''))) \<noteq> None"
  shows "fst (fst (getPublicIp env s)) = [] \<and> snd (fst (getPublicIp env s)) \<noteq> None"
  using assms by (auto simp add: getPublicIp_def http_Get_def case_prod_beta split: option.splits)

text \<open>
  Claim C8. When the first probe of the public IP fails (the HTTP request or the read of
  its body), the run goes on: it asks the provisioning client for the droplet, once and
  with the Deployment's name, region and user data, and the field \<open>InitialPublicIP\<close> is
  empty when the run ends, however it ends.
\<close>

theorem Run_initial_probe_failure:
  assumes "snd (http_backend env (http_calls s) ''http://checkip.amazonaws.com/'') \<noteq> None \<or>
           snd (Body (fst (http_backend env (http_calls s) ''http://checkip.amazonaws.com/''))) \<noteq> None"
  shows "InitialPublicIP (fst (snd (Run env d s))) = [] \<and>
         filter is_CreateDroplet (trace (snd (snd (Run env d s)))) =
           filter is_CreateDroplet (trace s)
             @ [CreateDroplet (Name d) (Region d) DropletSize (userData d) DropletImage]"
proof -
  let ?p = "Run_provision env d s"
  let ?d1 = "fst (snd (snd ?p))" and ?s1 = "snd (snd (snd ?p))"
  let ?a = "Run_artifacts env ?d1 ?s1"
  let ?c = "Run_autoconfigure env (fst (snd ?p)) (fst (snd ?a)) (snd (snd ?a))"
  have p1: "InitialPublicIP ?d1 = []"
    and p2: "filter is_CreateDroplet (trace ?s1) =
               filter is_CreateDroplet (trace s)
                 @ [CreateDroplet (Name d) (Region d) DropletSize (userData d) DropletImage]"
    using Run_provision_facts[of env d s] getPublicIp_fails[OF assms] by simp_all
  have a1: "InitialPublicIP (fst (snd ?a)) = InitialPublicIP ?d1"
    using Run_artifacts_AutoConfigure[of env ?d1 ?s1] by simp
  have a2: "filter is_CreateDroplet (trace (snd (snd ?a))) = filter is_CreateDroplet (trace ?s1)"
    using Run_artifacts_frame[of is_CreateDroplet env ?d1 ?s1] by simp
  have c: "filter is_CreateDroplet (trace (snd ?c)) = filter is_CreateDroplet (trace (snd (snd ?a))) \<and>
           InitialPublicIP (fst ?c) = InitialPublicIP (fst (snd ?a))"
    by (rule Run_autoconfigure_frame) simp_all
  show ?thesis
    by (simp add: Run_state c p1 p2 a1 a2 split: option.split)
qed

theorem Run_initial_probe_failure_witness:
  "InitialPublicIP (fst (snd (Run probe_down_env (sample_deployment False) fresh_sys))) = [] \<and>
   filter is_CreateDroplet (trace (snd (snd (Run probe_down_env (sample_deployment False) fresh_sys)))) =
     [CreateDroplet ''dosxvpn-557-nyc1'' ''nyc1'' ''512mb'' ''#cloud-config'' ''coreos-beta'']"
proof -
  have h: "snd (http_backend probe_down_env (http_calls fresh_sys) ''http://checkip.amazonaws.com/'') \<noteq> None \<or>
           snd (Body (fst (http_backend probe_down_env (http_calls fresh_sys) ''http://checkip.amazonaws.com/''))) \<noteq> None"
    by (simp add: probe_down_env_def)
  show ?thesis
    using Run_initial_probe_failure[OF h, of "sample_deployment False"]
    by (simp add: fresh_sys_def sample_deployment_def DropletSize_def DropletImage_def)
qed

text \<open>What a run that returns \<^verbatim>\<open>nil\<close> has written to \<open>Status\<close>.\<close>

lemma Run_status_writes:
  assumes "fst (Run env d s) = Returned None"
  shows "status_writes (trace (snd (snd (Run env d s)))) =
           status_writes (trace s) @ ''waiting for ssh'' #
             (if AutoConfigure d then [''adding vpn to osx'', ''waiting for ip address change'', ''done'']
              else []) \<and>
         Status (fst (snd (Run env d s))) = (if AutoConfigure d then ''done'' else ''waiting for ssh'')"
proof -
  let ?p = "Run_provision env d s"
  let ?d1 = "fst (snd (snd ?p))" and ?s1 = "snd (snd (snd ?p))"
  let ?a = "Run_artifacts env ?d1 ?s1"
  let ?c = "Run_autoconfigure env (fst (snd ?p)) (fst (snd ?a)) (snd (snd ?a))"
  from assms have pn: "fst ?p = None"
    by (auto simp add: Run_outcome split: option.splits)
  with assms have an: "fst ?a = None"
    by (auto simp add: Run_outcome split: option.splits)
  have st: "snd (Run env d s) = ?c" by (simp add: Run_state pn an)
  have p1: "status_writes (trace ?s1) = status_writes (trace s) @ [''waiting for ssh'']"
    and p2: "Status ?d1 = ''waiting for ssh''" and p3: "AutoConfigure ?d1 = AutoConfigure d"
    using Run_provision_facts[of env d s] pn by simp_all
  have a1: "status_writes (trace (snd (snd ?a))) = status_writes (trace ?s1)"
    using Run_artifacts_frame[of is_SetStatus env ?d1 ?s1] by (simp add: status_writes_def)
  have a2: "Status (fst (snd ?a)) = Status ?d1" and a3: "AutoConfigure (fst (snd ?a)) = AutoConfigure ?d1"
    using Run_artifacts_AutoConfigure[of env ?d1 ?s1] by simp_all
  show ?thesis
  proof (cases "AutoConfigure d")
    case True
    then have "AutoConfigure (fst (snd ?a))" by (simp add: a3 p3)
    from Run_autoconfigure_on[OF this, of env "fst (snd ?p)" "snd (snd ?a)"] True
    show ?thesis by (simp add: st a1 p1)
  next
    case False
    then have "\<not> AutoConfigure (fst (snd ?a))" by (simp add: a3 p3)
    from Run_autoconfigure_off[OF this, of env "fst (snd ?p)" "snd (snd ?a)"] False
    show ?thesis by (simp add: st a1 a2 p1 p2)
  qed
qed

text \<open>
  The order of the status values. Over a run that returns \<^verbatim>\<open>nil\<close>, started on a
  Deployment whose \<open>Status\<close> is \<open>pending auth\<close> as \<^verbatim>\<open>New\<close> leaves it, the values
  \<open>Status\<close> takes (the initial one, then the writes \<open>ws\<close> of the run in order) are a
  sub-list of the fixed sequence, in its order, so there is no regression, and the last
  of them is the final value of the field. With \<open>autoConfigure = true\<close> they are the
  whole sequence, which ends in \<open>done\<close>.
\<close>

theorem Run_status_order:
  assumes "Run env d s = (Returned None, d', s')" and "Status d = ''pending auth''"
  shows "\<exists>ws. status_writes (trace s') = status_writes (trace s) @ ws \<and>
              subseq (Status d # ws) status_order \<and>
              Status d' = last (Status d # ws) \<and>
              (AutoConfigure d \<longrightarrow> Status d # ws = status_order)"
proof -
  from assms(1) have r: "fst (Run env d s) = Returned None"
    and d': "d' = fst (snd (Run env d s))" and s': "s' = snd (snd (Run env d s))" by simp_all
  note w = Run_status_writes[OF r, folded d' s']
  show ?thesis
  proof (cases "AutoConfigure d")
    case True
    with w assms(2) show ?thesis
      by (intro exI[of _ "[''waiting for ssh'', ''adding vpn to osx'', ''waiting for ip address change'', ''done'']"])
         (simp add: status_order_def)
  next
    case False
    with w assms(2) show ?thesis
      by (intro exI[of _ "[''waiting for ssh'']"]) (simp add: status_order_def)
  qed
qed

theorem Run_status_order_witness:
  "status_writes (trace (snd (snd (Run sample_env (sample_deployment True) fresh_sys)))) =
     [''waiting for ssh'', ''adding vpn to osx'', ''waiting for ip address change'', ''done''] \<and>
   Status (fst (snd (Run sample_env (sample_deployment True) fresh_sys))) = ''done''"
proof -
  let ?r = "Run sample_env (sample_deployment True) fresh_sys"
  have h1: "?r = (Returned None, fst (snd ?r), snd (snd ?r))"
    using sample_Run_returns[of True] by (metis prod.collapse)
  have h2: "Status (sample_deployment True) = ''pending auth''" by (simp add: sample_deployment_def)
  have ac: "AutoConfigure (sample_deployment True)" by (simp add: sample_deployment_def)
  from Run_status_order[OF h1 h2] ac obtain ws where
    ws: "status_writes (trace (snd (snd ?r))) = status_writes (trace fresh_sys) @ ws"
      "Status (fst (snd ?r)) = last (Status (sample_deployment True) # ws)"
      "Status (sample_deployment True) # ws = status_order"
    by blast
  from ws(3) h2 have "ws = [''waiting for ssh'', ''adding vpn to osx'', ''waiting for ip address change'', ''done'']"
    by (simp add: status_order_def)
  with ws(1,2) show ?thesis by (simp add: fresh_sys_def status_writes_def)
qed

text \<open>
  Claim C1 does not hold of the code for \<open>autoConfigure = false\<close>. The assignment
  \<^verbatim>\<open>d.Status = "done"\<close> is the last statement of the block under
  \<^verbatim>\<open>if d.AutoConfigure\<close>, so a run without \<open>autoConfigure\<close> in which every collaborator
  succeeds returns \<^verbatim>\<open>nil\<close> with one write to \<open>Status\<close>, and the field still says
  \<open>waiting for ssh\<close>: the terminal state \<open>done\<close> is never reached.
\<close>

theorem Run_autoConfigure_false_never_done:
  "fst (Run sample_env (sample_deployment False) fresh_sys) = Returned None \<and>
   Status (sample_deployment False) = ''pending auth'' \<and>
   status_writes (trace (snd (snd (Run sample_env (sample_deployment False) fresh_sys)))) = [''waiting for ssh''] \<and>
   Status (fst (snd (Run sample_env (sample_deployment False) fresh_sys))) = ''waiting for ssh''"
  using Run_status_writes[OF sample_Run_returns[of False]] sample_Run_returns[of False]
  by (simp add: sample_deployment_def fresh_sys_def status_writes_def)

subsection \<open>The artifact pipeline\<close>

text \<open>The artifact part when the third fetch, that of the CA certificate, fails.\<close>

lemma Run_artifacts_ca_fails:
  assumes pw: "container_file env (fetch_calls s) (sshClient d) ''core'' (dropletIP d) ''dosxvpn''
                 ''/etc/ipsec.d/client.cert.p12.password'' = (pw, None)"
    and key: "container_file env (Suc (fetch_calls s)) (sshClient d) ''core'' (dropletIP d) ''dosxvpn''
                 ''/etc/ipsec.d/client.cert.p12'' = (key, None)"
    and ca: "container_file env (Suc (Suc (fetch_calls s))) (sshClient d) ''core'' (dropletIP d) ''dosxvpn''
                 ''/etc/ipsec.d/cacerts/ca.cert.pem'' = (x, Some e)"
  shows "Run_artifacts env d s =
           (Some e, d\<lparr>VpnPassword := pw\<rparr>,
            s\<lparr>files := disk_write (write_file env (write_calls s) (config_path env FilenamePrivateKey (Name d)) key)
                          (write_progress env (write_calls s) (config_path env FilenamePrivateKey (Name d)) key)
                          (files s) (config_path env FilenamePrivateKey (Name d)) key,
              trace := trace s @
                [GetFileFromContainer ''core'' (dropletIP d) ''dosxvpn'' ''/etc/ipsec.d/client.cert.p12.password'',
                 GetFileFromContainer ''core'' (dropletIP d) ''dosxvpn'' ''/etc/ipsec.d/client.cert.p12'',
                 MkdirAll (FilepathDosxvpnConfigDir env),
                 WriteFile (config_path env FilenamePrivateKey (Name d)) key,
                 GetFileFromContainer ''core'' (dropletIP d) ''dosxvpn'' ''/etc/ipsec.d/cacerts/ca.cert.pem''],
              fetch_calls := Suc (Suc (Suc (fetch_calls s))),
              mkdir_calls := Suc (mkdir_calls s),
              write_calls := Suc (write_calls s)\<rparr>)"
  by (simp add: Run_artifacts_def Let_def case_prod_beta fetch_state saveConfig_state pw key ca)

text \<open>
  The three artifacts are the private key, the CA certificate and the server
  certificate, fetched in this order after the password. Let the run reach the artifact
  part (\<open>Run_provision\<close> ends without error), let the fetches of the password and of
  the private key succeed, and let the fetch of the CA certificate fail with \<open>e\<close>.
  Under the further assumption that the write of the private key is accepted by the
  file system, \<^verbatim>\<open>Run\<close> returns \<open>e\<close>; the disk after the run is the disk before it with
  the private key file added and nothing else; and the fetches of the run are the three
  named, so the server certificate is never asked for.
\<close>

theorem Run_second_artifact_fetch_fails:
  assumes prov: "Run_provision env d s = (None, ip0, d1, s1)"
    and pw: "container_file env (fetch_calls s1) (sshClient d1) ''core'' (dropletIP d1) ''dosxvpn''
                 ''/etc/ipsec.d/client.cert.p12.password'' = (pw, None)"
    and key: "container_file env (Suc (fetch_calls s1)) (sshClient d1) ''core'' (dropletIP d1) ''dosxvpn''
                 ''/etc/ipsec.d/client.cert.p12'' = (key, None)"
    and ca: "container_file env (Suc (Suc (fetch_calls s1))) (sshClient d1) ''core'' (dropletIP d1) ''dosxvpn''
                 ''/etc/ipsec.d/cacerts/ca.cert.pem'' = (x, Some e)"
    and wr: "write_file env (write_calls s1) (config_path env FilenamePrivateKey (Name d1)) key = None"
  shows "fst (Run env d s) = Returned (Some e) \<and>
         files (snd (snd (Run env d s))) = (files s)(config_path env FilenamePrivateKey (Name d) \<mapsto> key) \<and>
         filter is_fetch (trace (snd (snd (Run env d s)))) =
           filter is_fetch (trace s) @
             [GetFileFromContainer ''core'' (dropletIP d1) ''dosxvpn'' ''/etc/ipsec.d/client.cert.p12.password'',
              GetFileFromContainer ''core'' (dropletIP d1) ''dosxvpn'' ''/etc/ipsec.d/client.cert.p12'',
              GetFileFromContainer ''core'' (dropletIP d1) ''dosxvpn'' ''/etc/ipsec.d/cacerts/ca.cert.pem''] \<and>
         write_calls (snd (snd (Run env d s))) = Suc (write_calls s)"
proof -
  from prov have s1: "s1 = snd (snd (snd (Run_provision env d s)))"
    and d1: "d1 = fst (snd (snd (Run_provision env d s)))" by simp_all
  have f: "files s1 = files s" "Name d1 = Name d" "write_calls s1 = write_calls s"
    using Run_provision_facts[of env d s] by (simp_all add: s1 d1)
  have t: "filter is_fetch (trace s1) = filter is_fetch (trace s)"
    unfolding s1 by (rule Run_provision_filter) simp_all
  show ?thesis
    using f t wr
    by (simp add: Run_def prov Run_artifacts_ca_fails[OF pw key ca] disk_write_def)
qed

lemma ca_missing_env_simps:
  "tcp_connect ca_missing_env = tcp_connect sample_env"
  "create_droplet ca_missing_env = create_droplet sample_env"
  "wait_droplet_ip ca_missing_env = wait_droplet_ip sample_env"
  "create_firewall ca_missing_env = create_firewall sample_env"
  "ssh_run ca_missing_env = ssh_run sample_env"
  "write_file ca_missing_env = write_file sample_env"
  "path_join ca_missing_env = path_join sample_env"
  "os_Getenv ca_missing_env = os_Getenv sample_env"
  "GOOS ca_missing_env = GOOS sample_env"
  by (simp_all add: ca_missing_env_def)

lemma sample_key_path:
  "config_path sample_env FilenamePrivateKey ''dosxvpn-557-nyc1'' =
     ''/Users/me/.dosxvpn/dosxvpn-557-nyc1.client.cert.p12''"
  by code_simp

lemma sample_paths:
  assumes "GOOS env = GOOS sample_env" and "os_Getenv env = os_Getenv sample_env"
    and "path_join env = path_join sample_env"
  shows "config_path env FilenamePrivateKey ''dosxvpn-557-nyc1'' =
           ''/Users/me/.dosxvpn/dosxvpn-557-nyc1.client.cert.p12''"
proof -
  have "config_path env FilenamePrivateKey ''dosxvpn-557-nyc1'' =
        config_path sample_env FilenamePrivateKey ''dosxvpn-557-nyc1''"
    by (simp only: config_path_def FilepathDosxvpnConfigDir_def userHomeDir_def assms)
  then show ?thesis by (simp only: sample_key_path)
qed

theorem Run_second_artifact_fetch_fails_witness:
  "fst (Run ca_missing_env (sample_deployment False) fresh_sys) = Returned (Some (Error ''No such container:path'')) \<and>
   files (snd (snd (Run ca_missing_env (sample_deployment False) fresh_sys))) =
     [''/Users/me/.dosxvpn/dosxvpn-557-nyc1.client.cert.p12'' \<mapsto> ''contents of /etc/ipsec.d/client.cert.p12'']"
proof -
  let ?p = "Run_provision ca_missing_env (sample_deployment False) fresh_sys"
  let ?d1 = "fst (snd (snd ?p))" and ?s1 = "snd (snd (snd ?p))"
  have "fst ?p = None" by (rule sample_provision) (simp_all add: ca_missing_env_simps)
  then have prov: "?p = (None, fst (snd ?p), ?d1, ?s1)" by (metis prod.collapse)
  have pw: "container_file ca_missing_env (fetch_calls ?s1) (sshClient ?d1) ''core'' (dropletIP ?d1) ''dosxvpn''
                 ''/etc/ipsec.d/client.cert.p12.password'' = (''contents of /etc/ipsec.d/client.cert.p12.password'', None)"
    by (simp add: ca_missing_env_def)
  have key: "container_file ca_missing_env (Suc (fetch_calls ?s1)) (sshClient ?d1) ''core'' (dropletIP ?d1) ''dosxvpn''
                 ''/etc/ipsec.d/client.cert.p12'' = (''contents of /etc/ipsec.d/client.cert.p12'', None)"
    by (simp add: ca_missing_env_def)
  have ca: "container_file ca_missing_env (Suc (Suc (fetch_calls ?s1))) (sshClient ?d1) ''core'' (dropletIP ?d1) ''dosxvpn''
                 ''/etc/ipsec.d/cacerts/ca.cert.pem'' = ([], Some (Error ''No such container:path''))"
    by (simp add: ca_missing_env_def)
  have wr: "write_file ca_missing_env (write_calls ?s1) (config_path ca_missing_env FilenamePrivateKey (Name ?d1))
              ''contents of /etc/ipsec.d/client.cert.p12'' = None"
    by (simp add: ca_missing_env_simps sample_env_simps)
  have n: "Name (sample_deployment False) = ''dosxvpn-557-nyc1''" by (simp add: sample_deployment_def)
  show ?thesis
    using Run_second_artifact_fetch_fails[OF prov pw key ca wr]
    by (simp add: n sample_paths ca_missing_env_simps fresh_sys_def)
qed

text \<open>
  Without the assumption on the write, the disk after the run is whatever the single
  write attempt of the private key left: \<^verbatim>\<open>Run\<close> does not look at the result of
  \<^verbatim>\<open>saveConfig\<close> and goes on to the fetch of the CA certificate.
\<close>

lemma Run_ca_fetch_fails:
  assumes prov: "Run_provision env d s = (None, ip0, d1, s1)"
    and pw: "container_file env (fetch_calls s1) (sshClient d1) ''core'' (dropletIP d1) ''dosxvpn''
                 ''/etc/ipsec.d/client.cert.p12.password'' = (pw, None)"
    and key: "container_file env (Suc (fetch_calls s1)) (sshClient d1) ''core'' (dropletIP d1) ''dosxvpn''
                 ''/etc/ipsec.d/client.cert.p12'' = (key, None)"
    and ca: "container_file env (Suc (Suc (fetch_calls s1))) (sshClient d1) ''core'' (dropletIP d1) ''dosxvpn''
                 ''/etc/ipsec.d/cacerts/ca.cert.pem'' = (x, Some e)"
  shows "fst (Run env d s) = Returned (Some e) \<and>
         files (snd (snd (Run env d s))) =
           disk_write (write_file env (write_calls s) (config_path env FilenamePrivateKey (Name d)) key)
             (write_progress env (write_calls s) (config_path env FilenamePrivateKey (Name d)) key)
             (files s) (config_path env FilenamePrivateKey (Name d)) key \<and>
         fetch_calls (snd (snd (Run env d s))) = fetch_calls s + 3 \<and>
         write_calls (snd (snd (Run env d s))) = Suc (write_calls s)"
proof -
  from prov have s1: "s1 = snd (snd (snd (Run_provision env d s)))"
    and d1: "d1 = fst (snd (snd (Run_provision env d s)))" by simp_all
  have f: "files s1 = files s" "Name d1 = Name d" "write_calls s1 = write_calls s"
    "fetch_calls s1 = fetch_calls s"
    using Run_provision_facts[of env d s] by (simp_all add: s1 d1)
  show ?thesis
    using f by (simp add: Run_def prov Run_artifacts_ca_fails[OF pw key ca])
qed

lemma unwritable_ca_missing_env_simps:
  "tcp_connect unwritable_ca_missing_env = tcp_connect sample_env"
  "create_droplet unwritable_ca_missing_env = create_droplet sample_env"
  "wait_droplet_ip unwritable_ca_missing_env = wait_droplet_ip sample_env"
  "create_firewall unwritable_ca_missing_env = create_firewall sample_env"
  "ssh_run unwritable_ca_missing_env = ssh_run sample_env"
  "path_join unwritable_ca_missing_env = path_join sample_env"
  "os_Getenv unwritable_ca_missing_env = os_Getenv sample_env"
  "GOOS unwritable_ca_missing_env = GOOS sample_env"
  "write_file unwritable_ca_missing_env k f dat = Some (Error ''permission denied'')"
  "write_progress unwritable_ca_missing_env k f dat = None"
  "container_file unwritable_ca_missing_env k c u h n p =
     (if p = ''/etc/ipsec.d/cacerts/ca.cert.pem'' then ([], Some (Error ''No such container:path''))
      else (''contents of '' @ p, None))"
  by (simp_all add: unwritable_ca_missing_env_def ca_missing_env_def sample_env_def)

text \<open>
  Claim C5 does not hold of the code. The Config Directory is not writable, so that
  every \<^verbatim>\<open>ioutil.WriteFile\<close> fails at the open with \<open>permission denied\<close>, and the
  container has no CA certificate. The fetch of the private key, the first artifact,
  succeeds; its write fails, and \<^verbatim>\<open>Run\<close> drops the error \<^verbatim>\<open>saveConfig\<close> returns and goes
  on. The fetch of the CA certificate, the second artifact, fails, and \<^verbatim>\<open>Run\<close> returns
  that error after three fetches and one write attempt: the error is surfaced and the
  server certificate is not fetched, but no file is on disk, where the claim has exactly
  the file of the first artifact.
\<close>

theorem Run_fetch_failure_with_no_file:
  "write_file unwritable_ca_missing_env 0 ''/Users/me/.dosxvpn/dosxvpn-557-nyc1.client.cert.p12''
     ''contents of /etc/ipsec.d/client.cert.p12'' = Some (Error ''permission denied'') \<and>
   fst (Run unwritable_ca_missing_env (sample_deployment False) fresh_sys)
     = Returned (Some (Error ''No such container:path'')) \<and>
   files (snd (snd (Run unwritable_ca_missing_env (sample_deployment False) fresh_sys))) = Map.empty \<and>
   fetch_calls (snd (snd (Run unwritable_ca_missing_env (sample_deployment False) fresh_sys))) = 3 \<and>
   write_calls (snd (snd (Run unwritable_ca_missing_env (sample_deployment False) fresh_sys))) = 1"
proof -
  let ?p = "Run_provision unwritable_ca_missing_env (sample_deployment False) fresh_sys"
  let ?d1 = "fst (snd (snd ?p))" and ?s1 = "snd (snd (snd ?p))"
  have "fst ?p = None" by (rule sample_provision) (simp_all add: unwritable_ca_missing_env_simps)
  then have prov: "?p = (None, fst (snd ?p), ?d1, ?s1)" by (metis prod.collapse)
  have pw: "container_file unwritable_ca_missing_env (fetch_calls ?s1) (sshClient ?d1) ''core'' (dropletIP ?d1) ''dosxvpn''
                 ''/etc/ipsec.d/client.cert.p12.password'' = (''contents of /etc/ipsec.d/client.cert.p12.password'', None)"
    by (simp add: unwritable_ca_missing_env_simps)
  have key: "container_file unwritable_ca_missing_env (Suc (fetch_calls ?s1)) (sshClient ?d1) ''core'' (dropletIP ?d1) ''dosxvpn''
                 ''/etc/ipsec.d/client.cert.p12'' = (''contents of /etc/ipsec.d/client.cert.p12'', None)"
    by (simp add: unwritable_ca_missing_env_simps)
  have ca: "container_file unwritable_ca_missing_env (Suc (Suc (fetch_calls ?s1))) (sshClient ?d1) ''core'' (dropletIP ?d1) ''dosxvpn''
                 ''/etc/ipsec.d/cacerts/ca.cert.pem'' = ([], Some (Error ''No such container:path''))"
    by (simp add: unwritable_ca_missing_env_simps)
  show ?thesis
    using Run_ca_fetch_fails[OF prov pw key ca]
    by (simp add: unwritable_ca_missing_env_simps disk_write_def fresh_sys_def)
qed

subsection \<open>Write failures\<close>

text \<open>\<^verbatim>\<open>saveConfig\<close> itself hands the error of the write to its caller.\<close>

lemma saveConfig_returns_write_error:
  "write_file env (write_calls s) saveFile configFileString = Some e \<Longrightarrow>
   fst (saveConfig env configFileString saveFile s) = ([], Some e)"
  by (simp add: saveConfig_def os_MkdirAll_def ioutil_WriteFile_def emit_def Let_def)

lemma readonly_env_simps:
  "tcp_connect readonly_env = tcp_connect sample_env"
  "create_droplet readonly_env = create_droplet sample_env"
  "wait_droplet_ip readonly_env = wait_droplet_ip sample_env"
  "create_firewall readonly_env = create_firewall sample_env"
  "ssh_run readonly_env = ssh_run sample_env"
  "container_file readonly_env = container_file sample_env"
  "apple_config readonly_env = apple_config sample_env"
  "android_config readonly_env = android_config sample_env"
  "path_join readonly_env = path_join sample_env"
  "os_Getenv readonly_env = os_Getenv sample_env"
  "GOOS readonly_env = GOOS sample_env"
  "write_file readonly_env k f dat = Some (Error ''permission denied'')"
  by (simp_all add: readonly_env_def)

lemma readonly_env_progress: "write_progress readonly_env k f dat = None"
  by (simp add: readonly_env_def sample_env_def)


lemma readonly_artifacts:
  "fst (Run_artifacts readonly_env d s) = None \<and>
   files (snd (snd (Run_artifacts readonly_env d s))) = files s \<and>
   fetch_calls (snd (snd (Run_artifacts readonly_env d s))) = fetch_calls s + 4 \<and>
   write_calls (snd (snd (Run_artifacts readonly_env d s))) = write_calls s + 5"
  by (simp add: Run_artifacts_def Let_def case_prod_beta fetch_state saveConfig_state gen_state
        readonly_env_simps readonly_env_progress sample_env_simps disk_write_def)

text \<open>
  Claim C6 does not hold of the code. \<^verbatim>\<open>saveConfig\<close> returns the error of
  \<^verbatim>\<open>ioutil.WriteFile\<close>, and \<^verbatim>\<open>Run\<close> drops it at every call. In the environment in
  which every write fails, the write of the first artifact fails, and the run goes on: it
  makes all four fetches and all five write attempts and returns \<^verbatim>\<open>nil\<close> with nothing
  on disk.
\<close>

theorem Run_ignores_write_failure:
  "write_file readonly_env 0 ''/Users/me/.dosxvpn/dosxvpn-557-nyc1.client.cert.p12''
     ''contents of /etc/ipsec.d/client.cert.p12'' = Some (Error ''permission denied'') \<and>
   fst (Run readonly_env (sample_deployment False) fresh_sys) = Returned None \<and>
   files (snd (snd (Run readonly_env (sample_deployment False) fresh_sys))) = Map.empty \<and>
   fetch_calls (snd (snd (Run readonly_env (sample_deployment False) fresh_sys))) = 4 \<and>
   write_calls (snd (snd (Run readonly_env (sample_deployment False) fresh_sys))) = 5"
proof -
  let ?p = "Run_provision readonly_env (sample_deployment False) fresh_sys"
  let ?d1 = "fst (snd (snd ?p))" and ?s1 = "snd (snd (snd ?p))"
  have pn: "fst ?p = None" by (rule sample_provision) (simp_all add: readonly_env_simps)
  have f: "files ?s1 = Map.empty" "fetch_calls ?s1 = 0" "write_calls ?s1 = 0" "\<not> AutoConfigure ?d1"
    using Run_provision_facts[of readonly_env "sample_deployment False" fresh_sys]
    by (simp_all add: fresh_sys_def sample_deployment_def)
  have off: "\<not> AutoConfigure (fst (snd (Run_artifacts readonly_env ?d1 ?s1)))"
    using Run_artifacts_AutoConfigure[of readonly_env ?d1 ?s1] f(4) by simp
  show ?thesis
    using readonly_artifacts[of ?d1 ?s1]
    by (simp add: Run_outcome Run_state pn Run_autoconfigure_off[OF off] f readonly_env_simps)
qed

subsection \<open>Convergence detection\<close>

text \<open>
  When the loop sees the IP change at its round \<open>m + 1\<close>, it asks for the public IP once
  more and stores the result of that request.
\<close>

lemma Run_autoconfigure_changed:
  assumes "AutoConfigure d"
    and "\<forall>i<m. \<not> ip_changed ip (probe_result env (http_calls s + i))"
    and "ip_changed ip (probe_result env (http_calls s + m))" and "m < 10"
  shows "FinalPublicIP (fst (Run_autoconfigure env ip d s)) = fst (probe_result env (http_calls s + m + 1)) \<and>
         http_calls (snd (Run_autoconfigure env ip d s)) = http_calls s + m + 2"
proof -
  let ?s0 = "emit (SetStatus ''waiting for ip address change'')
               (emit (OSXAddVPN (config_path env FilenameAppleConfig (Name d)))
                  (emit (SetStatus ''adding vpn to osx'') s))"
  let ?d0 = "d\<lparr>Status := ''adding vpn to osx'', Status := ''waiting for ip address change''\<rparr>"
  have h: "http_calls ?s0 = http_calls s" by (simp add: emit_def)
  have 1: "\<forall>i<m. \<not> ip_changed ip (probe_result env (http_calls ?s0 + i))" using assms(2) h by simp
  have 2: "ip_changed ip (probe_result env (http_calls ?s0 + m))" using assms(3) h by simp
  have 3: "0 + m < 10" using assms(4) by simp
  have "Run_autoconfigure env ip d s =
          set_Status ''done'' (Run_ip_loop env ip 0
             (d\<lparr>Status := ''adding vpn to osx''\<rparr>\<lparr>Status := ''waiting for ip address change''\<rparr>) ?s0)"
    using assms(1)
    by (simp add: Run_autoconfigure_def set_Status_def vpn_OSXAddVPN_def case_prod_beta)
  then show ?thesis
    unfolding Run_ip_loop_changed[OF 1 2 3]
    by (simp add: set_Status_def emit_def)
qed

lemma vpn_up_env_simps:
  "tcp_connect vpn_up_env = tcp_connect sample_env"
  "create_droplet vpn_up_env = create_droplet sample_env"
  "wait_droplet_ip vpn_up_env = wait_droplet_ip sample_env"
  "create_firewall vpn_up_env = create_firewall sample_env"
  "ssh_run vpn_up_env = ssh_run sample_env"
  "container_file vpn_up_env = container_file sample_env"
  "apple_config vpn_up_env = apple_config sample_env"
  "android_config vpn_up_env = android_config sample_env"
  by (simp_all add: vpn_up_env_def)

lemma TrimSpace_newline:
  "TrimSpace ''1.2.3.4\<newline>'' = ''1.2.3.4''"
  "TrimSpace ''5.6.7.8\<newline>'' = ''5.6.7.8''"
  by code_simp+

lemma vpn_up_probes:
  "probe_result vpn_up_env k =
     (if k < 3 then (''1.2.3.4'', None) else if k = 3 then (''5.6.7.8'', None)
      else ([], Some (Error ''connection reset by peer'')))"
  by (simp add: probe_result_def getPublicIp_def http_Get_def vpn_up_env_def TrimSpace_newline)

text \<open>
  Claim C2 does not hold of the code. The baseline is \<open>1.2.3.4\<close>, and the probes of the
  loop (requests 1, 2 and 3 of the process) yield \<open>1.2.3.4\<close>, \<open>1.2.3.4\<close>, \<open>5.6.7.8\<close>.
  The loop then makes a fourth probe, five HTTP requests in all, and stores its result:
  in this environment that request fails, and \<open>FinalPublicIP\<close> stays empty.
\<close>

theorem Run_probes_again_after_change:
  "fst (Run vpn_up_env (sample_deployment True) fresh_sys) = Returned None \<and>
   InitialPublicIP (fst (snd (Run vpn_up_env (sample_deployment True) fresh_sys))) = ''1.2.3.4'' \<and>
   map (probe_result vpn_up_env) [1, 2, 3] = [(''1.2.3.4'', None), (''1.2.3.4'', None), (''5.6.7.8'', None)] \<and>
   http_calls (snd (snd (Run vpn_up_env (sample_deployment True) fresh_sys))) = 5 \<and>
   FinalPublicIP (fst (snd (Run vpn_up_env (sample_deployment True) fresh_sys))) = []"
proof -
  let ?p = "Run_provision vpn_up_env (sample_deployment True) fresh_sys"
  let ?d1 = "fst (snd (snd ?p))" and ?s1 = "snd (snd (snd ?p))"
  let ?a = "Run_artifacts vpn_up_env ?d1 ?s1"
  let ?c = "Run_autoconfigure vpn_up_env (fst (snd ?p)) (fst (snd ?a)) (snd (snd ?a))"
  have pn: "fst ?p = None" by (rule sample_provision) (simp_all add: vpn_up_env_simps)
  have an: "fst ?a = None" by (rule sample_artifacts) (simp_all add: vpn_up_env_simps)
  have p: "fst (snd ?p) = ''1.2.3.4''" "InitialPublicIP ?d1 = ''1.2.3.4''" "http_calls ?s1 = 1" "AutoConfigure ?d1"
    using Run_provision_facts[of vpn_up_env "sample_deployment True" fresh_sys]
    by (simp_all add: getPublicIp_result fresh_sys_def vpn_up_probes sample_deployment_def)
  have a: "http_calls (snd (snd ?a)) = 1" "AutoConfigure (fst (snd ?a))" "InitialPublicIP (fst (snd ?a)) = ''1.2.3.4''"
    using Run_artifacts_frame[of "\<lambda>e. False" vpn_up_env ?d1 ?s1]
      Run_artifacts_AutoConfigure[of vpn_up_env ?d1 ?s1] p by simp_all
  have 1: "\<forall>i<2. \<not> ip_changed (fst (snd ?p)) (probe_result vpn_up_env (http_calls (snd (snd ?a)) + i))"
  proof (intro allI impI)
    fix i :: nat assume "i < 2"
    then have "i = 0 \<or> i = Suc 0" by (rule less_2_cases)
    then show "\<not> ip_changed (fst (snd ?p)) (probe_result vpn_up_env (http_calls (snd (snd ?a)) + i))"
      by (auto simp add: a p vpn_up_probes ip_changed_def numeral_2_eq_2[symmetric])
  qed
  have 2: "ip_changed (fst (snd ?p)) (probe_result vpn_up_env (http_calls (snd (snd ?a)) + 2))"
    by (simp add: a p vpn_up_probes ip_changed_def)
  have c: "FinalPublicIP (fst ?c) = []" "http_calls (snd ?c) = 5"
    using Run_autoconfigure_changed[OF a(2) 1 2]
    by (simp_all add: a vpn_up_probes)
  have i: "InitialPublicIP (fst ?c) = ''1.2.3.4''"
    using Run_autoconfigure_frame[of "\<lambda>e. False" vpn_up_env "fst (snd ?p)" "fst (snd ?a)" "snd (snd ?a)"] a
    by simp
  show ?thesis
    by (simp add: Run_outcome Run_state pn an c i vpn_up_probes)
qed

subsection \<open>The name of a Deployment\<close>

lemma New_Name:
  assumes "New env token region ac s = (Some (Inr d), s')"
  shows "Name d = DropletBaseName @ ''-''
                    @ take 3 (Itoa (rand_Int_after_Seed env (clock_UnixNano env (now_calls s))))
                    @ ''-'' @ region \<and>
         3 \<le> length (Itoa (rand_Int_after_Seed env (clock_UnixNano env (now_calls s)))) \<and>
         now_calls s' = Suc (now_calls s)"
  using assms
  by (auto simp add: New_def randomString_def time_Now_UnixNano_def sshclient_New_def emit_def
        Let_def case_prod_beta split: option.splits if_splits)

lemma digit_chars: "map digit_char [0, 1, 2, 3, 4, 5, 6, 7, 8, 9] = ''0123456789''"
  by code_simp

lemma digit_char_digit: "n < 10 \<Longrightarrow> digit_char n \<in> decimal_chars"
proof -
  assume "n < 10"
  then have "n \<in> set [0, 1, 2, 3, 4, 5, 6, 7, 8, 9]" by auto
  then have "digit_char n \<in> set (map digit_char [0, 1, 2, 3, 4, 5, 6, 7, 8, 9])"
    unfolding set_map by (rule imageI)
  then show ?thesis unfolding digit_chars decimal_chars_def by simp
qed

lemma Itoa_digits_chars: "set (Itoa_digits i) \<subseteq> decimal_chars"
proof (induction i rule: Itoa_digits.induct)
  case (1 i)
  show ?case
  proof (cases "i < 10")
    case True
    have "nat i < 10" using True by simp
    from digit_char_digit[OF this] have "digit_char (nat i) \<in> decimal_chars" .
    moreover have "Itoa_digits i = [digit_char (nat i)]"
      using True by (subst Itoa_digits.simps) simp
    ultimately show ?thesis by simp
  next
    case False
    from 1[OF False] have ih: "set (Itoa_digits (i div 10)) \<subseteq> decimal_chars" .
    have "nat (i mod 10) < 10" by simp
    from digit_char_digit[OF this] have dc: "digit_char (nat (i mod 10)) \<in> decimal_chars" .
    have "Itoa_digits i = Itoa_digits (i div 10) @ [digit_char (nat (i mod 10))]"
      using False by (subst Itoa_digits.simps) simp
    with ih dc show ?thesis by simp
  qed
qed

lemma Itoa_chars: "set (Itoa i) \<subseteq> decimal_chars"
proof -
  have "CHR ''-'' \<in> decimal_chars" by (simp add: decimal_chars_def)
  with Itoa_digits_chars[of i] Itoa_digits_chars[of "- i"] show ?thesis
    by (simp add: Itoa_def)
qed

lemma card_decimal_chars: "finite decimal_chars \<and> card decimal_chars = 11"
  by (simp add: decimal_chars_def card_insert_if)

lemma card_tokens: "finite tokens \<and> card tokens = 1331"
proof -
  have fin: "finite decimal_chars" using card_decimal_chars by blast
  have c: "card decimal_chars = 11" using card_decimal_chars by blast
  have "card tokens = card decimal_chars ^ 3"
    unfolding tokens_def using fin by (rule card_lists_length_eq)
  then have "card tokens = 11 ^ 3" by (simp only: c)
  moreover have "finite tokens"
    unfolding tokens_def using fin by (rule finite_lists_length_eq)
  ultimately show ?thesis by simp
qed

lemma New_Name_token:
  assumes "New env token region ac s = (Some (Inr d), s')"
  shows "\<exists>t\<in>tokens. Name d = DropletBaseName @ ''-'' @ t @ ''-'' @ region"
proof -
  let ?r = "Itoa (rand_Int_after_Seed env (clock_UnixNano env (now_calls s)))"
  from New_Name[OF assms] have n: "Name d = DropletBaseName @ ''-'' @ take 3 ?r @ ''-'' @ region"
    and l: "3 \<le> length ?r" by simp_all
  have "set (take 3 ?r) \<subseteq> set ?r" by (rule set_take_subset)
  also have "\<dots> \<subseteq> decimal_chars" by (rule Itoa_chars)
  finally have "set (take 3 ?r) \<subseteq> decimal_chars" .
  with l have "take 3 ?r \<in> tokens" by (simp add: tokens_def)
  then show ?thesis using n by (rule bexI[rotated])
qed

text \<open>
  Whatever the environment, the clock and the generator, the names \<^verbatim>\<open>New\<close> can give for
  one region are at most \<open>11 ^ 3\<close>.
\<close>

lemma New_at_most_1331_names:
  "finite {n. \<exists>env token ac s d s'. New env token region ac s = (Some (Inr d), s') \<and> Name d = n} \<and>
   card {n. \<exists>env token ac s d s'. New env token region ac s = (Some (Inr d), s') \<and> Name d = n} \<le> 1331"
proof -
  let ?N = "{n. \<exists>env token ac s d s'. New env token region ac s = (Some (Inr d), s') \<and> Name d = n}"
  let ?f = "\<lambda>t. DropletBaseName @ ''-'' @ t @ ''-'' @ region"
  have sub: "?N \<subseteq> ?f ` tokens"
  proof
    fix n assume "n \<in> ?N"
    then obtain env token ac s d s' where
      "New env token region ac s = (Some (Inr d), s')" and n: "Name d = n" by blast
    from New_Name_token[OF this(1)] obtain t where "t \<in> tokens" "Name d = ?f t" by blast
    with n show "n \<in> ?f ` tokens" by (simp add: image_iff) blast
  qed
  have ft: "finite tokens" and ct: "card tokens = 1331" using card_tokens by blast+
  have fin: "finite (?f ` tokens)" using ft by (rule finite_imageI)
  have "card ?N \<le> card (?f ` tokens)" using fin sub by (rule card_mono)
  also have "\<dots> \<le> card tokens" using ft by (rule card_image_le)
  finally have "card ?N \<le> 1331" by (simp only: ct)
  moreover have "finite ?N" using sub fin by (rule finite_subset)
  ultimately show ?thesis by blast
qed









end
